theory Spec2Isabelle
  imports Complex_Main
begin

section \<open>Python values\<close>

text \<open>
  The backend passes Python dictionaries between its functions. A dictionary whose keys
  are fixed by the code is a record with one optional field per key (\<open>None\<close>: the key is
  absent); a dictionary of sensor readings is an association list from the reading's name
  to its value, where the value \<open>None\<close> is Python's \<open>None\<close> (a pydantic \<open>Optional[float]\<close>
  sent as null). Sensor readings are floats: they are only ever compared with constants,
  which is exact, so they are real numbers here. Risk scores are Python integers.
  An instant (\<open>datetime\<close>) is its distance from \<open>datetime.min\<close> in microseconds, a
  \<open>timedelta\<close> is a number of microseconds.
\<close>

datatype py_error = KeyError string | TypeError | Raised string

type_synonym time = int

type_synonym features = "(string \<times> real option) list"

definition dict_get :: "'a option \<Rightarrow> 'a \<Rightarrow> 'a" where
  \<comment> \<open>\<open>d.get(key, default)\<close> on a field of a record that stands for \<open>d\<close>\<close>
  "dict_get field dflt = (case field of None \<Rightarrow> dflt | Some v \<Rightarrow> v)"

definition features_get :: "features \<Rightarrow> string \<Rightarrow> real option" where
  \<comment> \<open>\<open>raw_features.get(param)\<close>: \<open>None\<close> when the key is absent or its value is \<open>None\<close>\<close>
  "features_get f k = (case map_of f k of None \<Rightarrow> None | Some v \<Rightarrow> v)"

definition features_get_default :: "features \<Rightarrow> string \<Rightarrow> real \<Rightarrow> real option" where
  \<comment> \<open>\<open>features.get(key, default)\<close>: the default only when the key is absent\<close>
  "features_get_default f k dflt = (case map_of f k of None \<Rightarrow> Some dflt | Some v \<Rightarrow> v)"


section \<open>Risk scoring and decision engine (risk\_engine.py)\<close>

record band =
  band_min :: int
  band_max :: int
  color :: string
  emoji :: string

definition RISK_BANDS :: "(string \<times> band) list" where
  "RISK_BANDS =
    [(''Low'',    \<lparr>band_min = 0,  band_max = 40,  color = ''green'',  emoji = ''LOW''\<rparr>),
     (''Medium'', \<lparr>band_min = 41, band_max = 70,  color = ''orange'', emoji = ''MEDIUM''\<rparr>),
     (''High'',   \<lparr>band_min = 71, band_max = 100, color = ''red'',    emoji = ''HIGH''\<rparr>)]"

record thresholds =
  warning :: real
  danger :: real

definition SAFETY_THRESHOLDS :: "(string \<times> thresholds) list" where
  "SAFETY_THRESHOLDS =
    [(''rainfall_mm'',    \<lparr>warning = 80,  danger = 150\<rparr>),
     (''wind_speed_kmh'', \<lparr>warning = 60,  danger = 100\<rparr>),
     (''river_level_m'',  \<lparr>warning = 5,   danger = 7\<rparr>),
     (''temperature_c'',  \<lparr>warning = 40,  danger = 45\<rparr>),
     (''seismic_signal'', \<lparr>warning = 3 / 2, danger = 3\<rparr>),
     (''pressure_hpa'',   \<lparr>warning = 995, danger = 980\<rparr>)]"

definition ACTIONS :: "(string \<times> string) list" where
  "ACTIONS =
    [(''Low'',    ''Monitor - Continue normal activities. Stay informed via alerts.''),
     (''Medium'', ''Prepare - Review emergency plans. Secure property. Stay alert.''),
     (''High'',   ''Evacuate - Move to safety immediately. Follow authority instructions.'')]"

text \<open>
  A rule alert is the f-string
  \<open>"CRITICAL: {param} at {value} (danger threshold: {thresholds['danger']})"\<close> or its
  \<open>WARNING\<close> sibling; the three interpolated values are kept, their rendering as text is
  not modelled.
\<close>

datatype rule_alert = CRITICAL string real real | WARNING string real real

record ml_prediction =
  p_disaster_type :: "string option"
  p_risk_probability :: "real option"
  p_risk_score :: "int option"
  p_risk_level :: "string option"
  p_recommended_action :: "string option"
  p_class_probabilities :: "(string \<times> real) list option"
  p_model_version :: "string option"

record risk_result =
  disaster_type :: "string option"
  ml_risk_score :: "int option"
  rule_bonus :: "int option"
  final_risk_score :: "int option"
  risk_level :: "string option"
  risk_color :: "string option"
  risk_emoji :: "string option"
  risk_probability :: "real option"
  recommended_action :: "string option"
  rule_alerts :: "rule_alert list option"
  class_probabilities :: "(string \<times> real) list option"
  model_version :: "string option"
  confidence :: "real option"
  timestamp :: "time option"
  explanation :: "string option"

definition py_round :: "real \<Rightarrow> nat \<Rightarrow> real" where
  \<comment> \<open>\<open>round(x, ndigits)\<close>: to the nearest multiple of \<open>10^-ndigits\<close>, ties to even\<close>
  "py_round x ndigits =
     (let y = x * 10 ^ ndigits; f = \<lfloor>y\<rfloor>; d = y - of_int f;
          n = (if d < 1 / 2 then f else if 1 / 2 < d then f + 1
               else if even f then f else f + 1)
      in of_int n / 10 ^ ndigits)"

text \<open>
  The loop \<open>for param, thresholds in SAFETY_THRESHOLDS.items()\<close>, with the running
  \<open>rule_bonus\<close> and \<open>rule_alerts\<close> as accumulator. A dictionary iterates in insertion
  order.
\<close>

fun rule_loop ::
  "(string \<times> thresholds) list \<Rightarrow> features \<Rightarrow> int \<times> rule_alert list \<Rightarrow> int \<times> rule_alert list"
where
  "rule_loop [] raw_features acc = acc"
| "rule_loop ((param, th) # rest) raw_features (bonus, alerts) =
     (case features_get raw_features param of
        None \<Rightarrow> rule_loop rest raw_features (bonus, alerts)
      | Some v \<Rightarrow>
          if param = ''pressure_hpa'' then
            (if v < danger th then
               rule_loop rest raw_features (bonus + 20, alerts @ [CRITICAL param v (danger th)])
             else if v < warning th then
               rule_loop rest raw_features (bonus + 10, alerts @ [WARNING param v (warning th)])
             else rule_loop rest raw_features (bonus, alerts))
          else
            (if v > danger th then
               rule_loop rest raw_features (bonus + 20, alerts @ [CRITICAL param v (danger th)])
             else if v > warning th then
               rule_loop rest raw_features (bonus + 10, alerts @ [WARNING param v (warning th)])
             else rule_loop rest raw_features (bonus, alerts)))"

definition rule_check :: "features option \<Rightarrow> int \<times> rule_alert list" where
  \<comment> \<open>\<open>if raw_features:\<close> is false for \<open>None\<close> and for the empty dictionary\<close>
  "rule_check raw_features =
     (case raw_features of
        None \<Rightarrow> (0, [])
      | Some f \<Rightarrow> if f = [] then (0, []) else rule_loop SAFETY_THRESHOLDS f (0, []))"

definition level_of :: "int \<Rightarrow> string" where
  \<comment> \<open>the \<open>if final_score <= 40 ... elif final_score <= 70 ... else\<close> chain\<close>
  "level_of final_score =
     (if final_score \<le> 40 then ''Low'' else if final_score \<le> 70 then ''Medium'' else ''High'')"

definition compute_risk_score ::
  "ml_prediction \<Rightarrow> features option \<Rightarrow> time \<Rightarrow> py_error + risk_result"
where
  \<comment> \<open>\<open>now\<close> is what \<open>datetime.utcnow()\<close> returns; \<open>int(...)\<close> of an integer is that integer;
      \<open>RISK_BANDS[risk_level]\<close> and \<open>ACTIONS[risk_level]\<close> raise KeyError on a missing key\<close>
  "compute_risk_score ml_pred raw_features now =
     (let base = dict_get (p_risk_score ml_pred) 0;
          dtype = dict_get (p_disaster_type ml_pred) ''None'';
          ml_probability = dict_get (p_risk_probability ml_pred) 0;
          (bonus, alerts) = rule_check raw_features;
          final_score = min 100 (max 0 (base + bonus));
          lvl = level_of final_score
      in case map_of RISK_BANDS lvl of
           None \<Rightarrow> Inl (KeyError lvl)
         | Some b \<Rightarrow>
            (case map_of ACTIONS lvl of
               None \<Rightarrow> Inl (KeyError lvl)
             | Some action \<Rightarrow>
                 Inr \<lparr>disaster_type = Some dtype,
                      ml_risk_score = Some base,
                      rule_bonus = Some bonus,
                      final_risk_score = Some final_score,
                      risk_level = Some lvl,
                      risk_color = Some (color b),
                      risk_emoji = Some (emoji b),
                      risk_probability = Some ml_probability,
                      recommended_action = Some action,
                      rule_alerts = Some alerts,
                      class_probabilities = Some (dict_get (p_class_probabilities ml_pred) []),
                      model_version = Some (dict_get (p_model_version ml_pred) ''unknown''),
                      confidence = Some (py_round ml_probability 4),
                      timestamp = Some now,
                      explanation = None\<rparr>))"

definition should_trigger_alert :: "risk_result \<Rightarrow> py_error + bool" where
  \<comment> \<open>\<open>risk_result["final_risk_score"] > 40 and risk_result["disaster_type"] != "None"\<close>;
      the second subscript is evaluated only when the first comparison holds\<close>
  "should_trigger_alert r =
     (case final_risk_score r of
        None \<Rightarrow> Inl (KeyError ''final_risk_score'')
      | Some s \<Rightarrow>
          if s > 40 then
            (case disaster_type r of
               None \<Rightarrow> Inl (KeyError ''disaster_type'')
             | Some d \<Rightarrow> Inr (d \<noteq> ''None''))
          else Inr False)"

definition get_alert_severity :: "risk_result \<Rightarrow> py_error + string" where
  \<comment> \<open>\<open>mapping.get(risk_result["risk_level"], "info")\<close>\<close>
  "get_alert_severity r =
     (case risk_level r of
        None \<Rightarrow> Inl (KeyError ''risk_level'')
      | Some lvl \<Rightarrow>
          Inr (dict_get (map_of [(''Low'', ''info''), (''Medium'', ''warning''), (''High'', ''critical'')] lvl)
                 ''info''))"




section \<open>Requests and the rule-based fallback (main.py)\<close>

text \<open>
  \<open>PredictRequest\<close> is the pydantic model of the request body. \<open>req.dict()\<close> lists its
  fields in declaration order; the key \<open>region_id\<close>, the only one that holds a string, is
  read by no numeric lookup and is left out of the dictionary of readings.
\<close>

record PredictRequest =
  req_region_id :: string
  req_temperature_c :: real
  req_rainfall_mm :: real
  req_humidity_pct :: "real option"
  req_wind_speed_kmh :: "real option"
  req_pressure_hpa :: "real option"
  req_river_level_m :: "real option"
  req_seismic_signal :: "real option"
  req_rainfall_gauge_mm :: "real option"
  req_elevation :: "real option"
  req_flood_prone :: "int option"
  req_cyclone_prone :: "int option"
  req_earthquake_zone :: "int option"

definition req_dict :: "PredictRequest \<Rightarrow> features" where
  "req_dict req =
     [(''temperature_c'', Some (req_temperature_c req)),
      (''rainfall_mm'', Some (req_rainfall_mm req)),
      (''humidity_pct'', req_humidity_pct req),
      (''wind_speed_kmh'', req_wind_speed_kmh req),
      (''pressure_hpa'', req_pressure_hpa req),
      (''river_level_m'', req_river_level_m req),
      (''seismic_signal'', req_seismic_signal req),
      (''rainfall_gauge_mm'', req_rainfall_gauge_mm req),
      (''elevation'', req_elevation req),
      (''flood_prone'', map_option of_int (req_flood_prone req)),
      (''cyclone_prone'', map_option of_int (req_cyclone_prone req)),
      (''earthquake_zone'', map_option of_int (req_earthquake_zone req))]"

definition py_gt :: "real option \<Rightarrow> real \<Rightarrow> py_error + bool" where
  \<comment> \<open>\<open>value > bound\<close>; comparing \<open>None\<close> with a number raises TypeError\<close>
  "py_gt value bound = (case value of None \<Rightarrow> Inl TypeError | Some v \<Rightarrow> Inr (v > bound))"

definition py_lt :: "real option \<Rightarrow> real \<Rightarrow> py_error + bool" where
  "py_lt value bound = (case value of None \<Rightarrow> Inl TypeError | Some v \<Rightarrow> Inr (v < bound))"

fun py_and :: "py_error + bool \<Rightarrow> py_error + bool \<Rightarrow> py_error + bool" where
  \<comment> \<open>\<open>a and b\<close>: \<open>b\<close> is evaluated, and can raise, only when \<open>a\<close> is true\<close>
  "py_and (Inl e) b = Inl e"
| "py_and (Inr False) b = Inr False"
| "py_and (Inr True) b = b"

fun first_match :: "((py_error + bool) \<times> int \<times> string) list \<Rightarrow> py_error + int \<times> string" where
  \<comment> \<open>an \<open>if ... elif ...\<close> chain that assigns \<open>score\<close> and \<open>disaster\<close>: the first condition
      that holds decides, the conditions after it are not evaluated; with none,
      \<open>score = 0\<close> and \<open>disaster = "None"\<close> stay\<close>
  "first_match [] = Inr (0, ''None'')"
| "first_match ((cond, outcome) # rest) =
     (case cond of
        Inl e \<Rightarrow> Inl e
      | Inr True \<Rightarrow> Inr outcome
      | Inr False \<Rightarrow> first_match rest)"

definition rule_based_prediction :: "features \<Rightarrow> py_error + ml_prediction" where
  \<comment> \<open>\<open>_rule_based_prediction\<close>\<close>
  "rule_based_prediction f =
     (case first_match
        [(py_and (py_gt (features_get_default f ''rainfall_mm'' 0) 100)
                 (py_gt (features_get_default f ''river_level_m'' 0) 5), 75, ''Flood''),
         (py_and (py_gt (features_get_default f ''wind_speed_kmh'' 0) 80)
                 (py_lt (features_get_default f ''pressure_hpa'' 1013) 990), 80, ''Cyclone''),
         (py_gt (features_get_default f ''seismic_signal'' 0) 2, 70, ''Earthquake''),
         (py_gt (features_get_default f ''temperature_c'' 0) 42, 65, ''Heatwave''),
         (py_gt (features_get_default f ''rainfall_mm'' 0) 60, 45, ''Flood''),
         (py_gt (features_get_default f ''wind_speed_kmh'' 0) 50, 50, ''Cyclone'')]
      of
        Inl e \<Rightarrow> Inl e
      | Inr (score, disaster) \<Rightarrow>
          Inr \<lparr>p_disaster_type = Some disaster,
               p_risk_probability = Some (of_int score / 100),
               p_risk_score = Some score,
               p_risk_level =
                 Some (if score \<le> 40 then ''Low'' else if score \<le> 70 then ''Medium'' else ''High''),
               p_recommended_action =
                 Some (if score \<le> 40 then ''Monitor''
                       else if score \<le> 70 then ''Prepare'' else ''Evacuate''),
               p_class_probabilities = Some [(disaster, of_int score / 100)],
               p_model_version = Some ''rule_based_v1''\<rparr>)"


section \<open>Alert service (alert\_service.py)\<close>

subsection \<open>Rate limiter\<close>

text \<open>
  \<open>last_alert\<close> is a \<open>defaultdict(lambda: datetime.min)\<close>: reading a missing key stores
  \<open>datetime.min\<close> under it and returns it. \<open>datetime.min\<close> is instant 0.
\<close>

record AlertRateLimiter =
  cooldown :: int
  last_alert :: "string \<rightharpoonup> time"

definition datetime_min :: time where
  "datetime_min = 0"

definition timedelta_minutes :: "int \<Rightarrow> int" where
  \<comment> \<open>\<open>timedelta(minutes=m)\<close> in microseconds\<close>
  "timedelta_minutes m = m * 60000000"

definition new_AlertRateLimiter :: "int \<Rightarrow> AlertRateLimiter" where
  \<comment> \<open>\<open>AlertRateLimiter.__init__\<close>\<close>
  "new_AlertRateLimiter cooldown_minutes =
     \<lparr>cooldown = timedelta_minutes cooldown_minutes, last_alert = Map.empty\<rparr>"

definition defaultdict_getitem :: "(string \<rightharpoonup> time) \<Rightarrow> string \<Rightarrow> time \<times> (string \<rightharpoonup> time)" where
  "defaultdict_getitem d k =
     (case d k of Some t \<Rightarrow> (t, d) | None \<Rightarrow> (datetime_min, d(k \<mapsto> datetime_min)))"

definition can_send :: "AlertRateLimiter \<Rightarrow> time \<Rightarrow> string \<Rightarrow> bool \<times> AlertRateLimiter" where
  \<comment> \<open>\<open>now\<close> is what \<open>datetime.utcnow()\<close> returns\<close>
  "can_send limiter now region_id =
     (let (t, d) = defaultdict_getitem (last_alert limiter) region_id
      in (now - t > cooldown limiter, limiter\<lparr>last_alert := d\<rparr>))"

definition record_send :: "AlertRateLimiter \<Rightarrow> time \<Rightarrow> string \<Rightarrow> AlertRateLimiter" where
  \<comment> \<open>\<open>AlertRateLimiter.record\<close>\<close>
  "record_send limiter now region_id = limiter\<lparr>last_alert := (last_alert limiter)(region_id \<mapsto> now)\<rparr>"

definition last_alert_of :: "AlertRateLimiter \<Rightarrow> string \<Rightarrow> time" where
  \<comment> \<open>the last-alert instant of a region as the limiter sees it: "never" is \<open>datetime.min\<close>\<close>
  "last_alert_of limiter region_id = dict_get (last_alert limiter region_id) datetime_min"

subsection \<open>Alerts, storage and delivery\<close>

text \<open>
  The alert message is an f-string; its pieces are kept in order, and the rendering of
  the three formatted values (the score, the confidence as \<open>:.1%\<close>, the instant as
  \<open>%Y-%m-%d %H:%M UTC\<close>) is not modelled. Strings are byte strings in UTF-8.
\<close>

datatype fragment = Text string | Number int | Percent real | Minute time

record alert_data =
  a_region_id :: string
  a_alert_type :: string
  a_severity :: string
  a_title :: string
  a_message :: "fragment list"
  a_recommended_action :: string
  a_status :: string
  a_delivered_channels :: string
  a_risk_score :: int
  a_prediction_id :: "nat option"
  a_id :: "nat option"

record prediction_data =
  pd_region_id :: string
  pd_timestamp :: time
  pd_disaster_type :: string
  pd_risk_probability :: real
  pd_risk_score :: int
  pd_risk_level :: string
  pd_recommended_action :: string
  pd_model_version :: string
  pd_explanation :: string

record region_info =
  g_id :: "string option"
  g_name :: "string option"

text \<open>
  What the service writes to: the two tables it inserts into (a row's id is its position,
  counted from 1: the tables are AUTOINCREMENT and nothing deletes from them), the
  operator's console and the delivery log \<open>logs/alerts.log\<close>.
\<close>

datatype printed =
    Alert_delivered string string string
  | Could_not_save_prediction py_error
  | Could_not_save_alert py_error
  | Model_not_available py_error

record store =
  predictions :: "prediction_data list"
  alerts :: "alert_data list"
  console :: "printed list"
  alerts_log :: "(time \<times> string \<times> string) list"

text \<open>
  What one call of \<open>generate_alert\<close> meets outside the program: the instants its five
  \<open>datetime.utcnow()\<close> calls return, and whether each of the two inserts and the
  writing of the log raises (\<open>Some e\<close>: it raises an exception with text \<open>e\<close> and leaves
  its target as it was).
\<close>

record io =
  t_can_send :: time
  t_message :: time
  t_prediction :: time
  prediction_insert :: "string option"
  alert_insert :: "string option"
  t_record :: time
  log_write :: "string option"
  t_log :: time

definition PredictionDAO_insert :: "string option \<Rightarrow> prediction_data \<Rightarrow> store \<Rightarrow> (py_error + nat) \<times> store" where
  "PredictionDAO_insert raises row st =
     (case raises of
        Some e \<Rightarrow> (Inl (Raised e), st)
      | None \<Rightarrow> (Inr (Suc (length (predictions st))), st\<lparr>predictions := predictions st @ [row]\<rparr>))"

definition AlertDAO_insert :: "string option \<Rightarrow> alert_data \<Rightarrow> store \<Rightarrow> (py_error + nat) \<times> store" where
  "AlertDAO_insert raises row st =
     (case raises of
        Some e \<Rightarrow> (Inl (Raised e), st)
      | None \<Rightarrow> (Inr (Suc (length (alerts st))), st\<lparr>alerts := alerts st @ [row]\<rparr>))"

definition lower_char :: "char \<Rightarrow> char" where
  "lower_char c =
     (let n = of_char c :: nat in if 65 \<le> n \<and> n \<le> 90 then char_of (n + 32) else c)"

definition py_lower :: "string \<Rightarrow> string" where
  \<comment> \<open>\<open>str.lower()\<close> on ASCII letters; other bytes stay\<close>
  "py_lower s = map lower_char s"

definition warning_sign :: string where
  \<comment> \<open>U+26A0 U+FE0F, the default of \<open>risk_result.get('risk_emoji', ...)\<close>\<close>
  "warning_sign = [CHR 0xE2, CHR 0x9A, CHR 0xA0, CHR 0xEF, CHR 0xB8, CHR 0x8F]"

definition em_dash :: string where
  \<comment> \<open>U+2014\<close>
  "em_dash = [CHR 0xE2, CHR 0x80, CHR 0x94]"

definition newline :: string where
  "newline = [CHR 0x0A]"

record AlertService =
  rate_limiter :: AlertRateLimiter

definition new_AlertService :: "int \<Rightarrow> AlertService" where
  \<comment> \<open>\<open>AlertService.__init__\<close>; the default of \<open>cooldown_minutes\<close> is 60\<close>
  "new_AlertService cooldown_minutes = \<lparr>rate_limiter = new_AlertRateLimiter cooldown_minutes\<rparr>"

datatype alert_outcome = Rate_limited string | Sent alert_data

definition deliver_alert :: "io \<Rightarrow> alert_data \<Rightarrow> store \<Rightarrow> (py_error + unit) \<times> store" where
  \<comment> \<open>\<open>_deliver_alert\<close>: the console banner, then one line appended to the log\<close>
  "deliver_alert env a st =
     (let st1 = st\<lparr>console := console st @
                   [Alert_delivered (a_title a) (a_severity a) (a_delivered_channels a)]\<rparr>
      in case log_write env of
           Some e \<Rightarrow> (Inl (Raised e), st1)
         | None \<Rightarrow>
             (Inr (), st1\<lparr>alerts_log := alerts_log st1 @ [(t_log env, a_title a, a_severity a)]\<rparr>))"

text \<open>
  \<open>generate_alert\<close> in the order of its source: the rate-limit check, the alert and
  the prediction row it builds, the two guarded inserts, the recording of the send,
  the delivery. The four blocks are defined first, then the method.
\<close>

definition build_alert :: "io \<Rightarrow> risk_result \<Rightarrow> string \<Rightarrow> string \<Rightarrow> alert_data" where
  \<comment> \<open>\<open>title\<close>, \<open>message\<close> and \<open>alert_data\<close>\<close>
  "build_alert env r region_id region_name =
     (let severity = dict_get (risk_level r) ''Low'';
          disaster = dict_get (disaster_type r) ''Unknown'';
          score = dict_get (final_risk_score r) 0;
          action = dict_get (recommended_action r) ''Monitor'';
          title = dict_get (risk_emoji r) warning_sign @ '' '' @ severity @ '' Risk: ''
                    @ disaster @ '' Alert '' @ em_dash @ '' '' @ region_name;
          message =
            [Text ''Disaster Type: '', Text disaster, Text newline,
             Text ''Risk Score: '', Number score, Text ''/100 ('', Text severity,
             Text '')'', Text newline,
             Text ''Region: '', Text region_name, Text newline,
             Text ''Action: '', Text action, Text newline,
             Text ''Confidence: '', Percent (dict_get (confidence r) 0), Text newline,
             Text ''Time: '', Minute (t_message env)]
      in \<lparr>a_region_id = region_id, a_alert_type = disaster,
          a_severity = py_lower severity, a_title = title, a_message = message,
          a_recommended_action = action, a_status = ''active'',
          a_delivered_channels = ''web'', a_risk_score = score,
          a_prediction_id = None, a_id = None\<rparr>)"

definition build_prediction :: "io \<Rightarrow> risk_result \<Rightarrow> string \<Rightarrow> prediction_data" where
  \<comment> \<open>\<open>prediction_data\<close>\<close>
  "build_prediction env r region_id =
     \<lparr>pd_region_id = region_id, pd_timestamp = t_prediction env,
      pd_disaster_type = dict_get (disaster_type r) ''Unknown'',
      pd_risk_probability = dict_get (risk_probability r) 0,
      pd_risk_score = dict_get (final_risk_score r) 0,
      pd_risk_level = dict_get (risk_level r) ''Low'',
      pd_recommended_action = dict_get (recommended_action r) ''Monitor'',
      pd_model_version = dict_get (model_version r) ''unknown'',
      pd_explanation = dict_get (explanation r) ''{}''\<rparr>"

definition store_prediction ::
  "io \<Rightarrow> prediction_data \<Rightarrow> alert_data \<Rightarrow> store \<Rightarrow> alert_data \<times> store"
where
  \<comment> \<open>the first \<open>try\<close>: insert the prediction and attach its id; an exception is printed\<close>
  "store_prediction env row a st =
     (case PredictionDAO_insert (prediction_insert env) row st of
        (Inr prediction_id, st') \<Rightarrow> (a\<lparr>a_prediction_id := Some prediction_id\<rparr>, st')
      | (Inl e, st') \<Rightarrow> (a, st'\<lparr>console := console st' @ [Could_not_save_prediction e]\<rparr>))"

definition store_alert :: "io \<Rightarrow> alert_data \<Rightarrow> store \<Rightarrow> alert_data \<times> store" where
  \<comment> \<open>the second \<open>try\<close>: insert the alert and attach its id; an exception is printed\<close>
  "store_alert env a st =
     (case AlertDAO_insert (alert_insert env) a st of
        (Inr alert_id, st') \<Rightarrow> (a\<lparr>a_id := Some alert_id\<rparr>, st')
      | (Inl e, st') \<Rightarrow> (a, st'\<lparr>console := console st' @ [Could_not_save_alert e]\<rparr>))"

definition generate_alert ::
  "io \<Rightarrow> AlertService \<Rightarrow> risk_result \<Rightarrow> region_info \<Rightarrow> store
     \<Rightarrow> (py_error + alert_outcome) \<times> AlertService \<times> store"
where
  "generate_alert env self r region st =
     (let region_id = dict_get (g_id region) ''unknown'';
          region_name = dict_get (g_name region) ''Unknown Region'';
          (ok, limiter) = can_send (rate_limiter self) (t_can_send env) region_id
      in if \<not> ok then (Inr (Rate_limited region_id), self\<lparr>rate_limiter := limiter\<rparr>, st)
         else
           let alert0 = build_alert env r region_id region_name;
               (alert1, st1) = store_prediction env (build_prediction env r region_id) alert0 st;
               (alert2, st2) = store_alert env alert1 st1;
               self' = self\<lparr>rate_limiter := record_send limiter (t_record env) region_id\<rparr>
           in case deliver_alert env alert2 st2 of
                (Inl e, st3) \<Rightarrow> (Inl e, self', st3)
              | (Inr _, st3) \<Rightarrow> (Inr (Sent alert2), self', st3))"


subsection \<open>The singleton and the prediction endpoint (main.py)\<close>

definition get_alert_service :: "AlertService option \<Rightarrow> AlertService \<times> AlertService option" where
  \<comment> \<open>the module global \<open>_alert_service\<close>, created on first use with the default cooldown\<close>
  "get_alert_service g =
     (case g of
        None \<Rightarrow> (new_AlertService 60, Some (new_AlertService 60))
      | Some s \<Rightarrow> (s, Some s))"

fun find_region :: "region_info list \<Rightarrow> string \<Rightarrow> py_error + region_info option" where
  \<comment> \<open>the loop \<open>for r in regions: if r["id"] == region_id: return r\<close>\<close>
  "find_region [] region_id = Inr None"
| "find_region (r # rs) region_id =
     (case g_id r of
        None \<Rightarrow> Inl (KeyError ''id'')
      | Some i \<Rightarrow> if i = region_id then Inr (Some r) else find_region rs region_id)"

definition get_region_info :: "py_error + region_info list \<Rightarrow> string \<Rightarrow> region_info" where
  \<comment> \<open>\<open>_get_region_info\<close>; its first argument is what \<open>RegionDAO.get_all()\<close> does.
      Every exception is swallowed and the default returned\<close>
  "get_region_info regions region_id =
     (case regions of
        Inl e \<Rightarrow> \<lparr>g_id = Some region_id, g_name = Some region_id\<rparr>
      | Inr rs \<Rightarrow>
          (case find_region rs region_id of
             Inr (Some r) \<Rightarrow> r
           | _ \<Rightarrow> \<lparr>g_id = Some region_id, g_name = Some region_id\<rparr>))"

text \<open>
  What one call of \<open>predict_risk\<close> meets outside the program: the outcome of its inner
  \<open>try\<close> block (loading the model and predicting: a prediction, or any exception), the
  instant \<open>compute_risk_score\<close> reads, the outcome of \<open>RegionDAO.get_all()\<close>, and the
  environment of the alert it may generate. The state it runs in is the module global
  \<open>_alert_service\<close> and the store. An exception that escapes becomes the HTTP 500
  response (\<open>Inl\<close>).
\<close>

record predict_env =
  ml_attempt :: "py_error + ml_prediction"
  t_score :: time
  regions :: "py_error + region_info list"
  alert_env :: io

definition predict_risk ::
  "predict_env \<Rightarrow> PredictRequest \<Rightarrow> AlertService option \<times> store
     \<Rightarrow> (py_error + risk_result) \<times> AlertService option \<times> store"
where
  "predict_risk env req state =
     (let (g, st) = state;
          (prediction, st1) =
            (case ml_attempt env of
               Inr p \<Rightarrow> (Inr p, st)
             | Inl e \<Rightarrow> (rule_based_prediction (req_dict req),
                         st\<lparr>console := console st @ [Model_not_available e]\<rparr>))
      in case prediction of
           Inl e \<Rightarrow> (Inl e, g, st1)
         | Inr p \<Rightarrow>
            (case compute_risk_score p (Some (req_dict req)) (t_score env) of
               Inl e \<Rightarrow> (Inl e, g, st1)
             | Inr r \<Rightarrow>
                (case should_trigger_alert r of
                   Inl e \<Rightarrow> (Inl e, g, st1)
                 | Inr False \<Rightarrow> (Inr r, g, st1)
                 | Inr True \<Rightarrow>
                     let (service, g1) = get_alert_service g;
                         region = get_region_info (regions env) (req_region_id req)
                     in (case generate_alert (alert_env env) service r region st1 of
                           (Inl e, service', st2) \<Rightarrow> (Inl e, Some service', st2)
                         | (Inr _, service', st2) \<Rightarrow> (Inr r, Some service', st2)))))"


section \<open>Rolling features (features.py)\<close>

text \<open>
  \<open>compute_temporal_features\<close> sorts the frame by region and timestamp, groups a column
  by region and transforms each group with pandas' rolling windows. The functions below
  are that transform on one group: the column's values for one region in timestamp
  order, \<open>None\<close> for a missing value (NaN). Floats are real numbers here.

  \<open>x.rolling(w, min_periods=m)\<close> gives, at each position, the window of the last
  \<open>w\<close> rows up to and including that position (fewer at the start of the series); an
  aggregate over the window is taken over its values that are present, and is NaN when
  fewer than \<open>m\<close> are. \<open>mean()\<close> is their arithmetic mean; \<open>std()\<close> is the sample
  standard deviation (divisor \<open>n - 1\<close>), NaN with fewer than two values.
\<close>

definition window :: "nat \<Rightarrow> 'a list \<Rightarrow> nat \<Rightarrow> 'a list" where
  "window w xs i = drop (Suc i - w) (take (Suc i) xs)"

definition present :: "real option list \<Rightarrow> real list" where
  "present ws = concat (map (\<lambda>v. case v of None \<Rightarrow> [] | Some x \<Rightarrow> [x]) ws)"

definition mean :: "real list \<Rightarrow> real" where
  "mean vs = sum_list vs / real (length vs)"

definition sample_std :: "real list \<Rightarrow> real" where
  "sample_std vs = sqrt ((\<Sum>v\<leftarrow>vs. (v - mean vs)\<^sup>2) / real (length vs - 1))"

definition rolling_mean :: "nat \<Rightarrow> nat \<Rightarrow> real option list \<Rightarrow> real option list" where
  \<comment> \<open>\<open>x.rolling(w, min_periods=m).mean()\<close>\<close>
  "rolling_mean w m xs =
     map (\<lambda>i. let vs = present (window w xs i)
              in if m \<le> length vs \<and> 1 \<le> length vs then Some (mean vs) else None)
         [0..<length xs]"

definition rolling_std :: "nat \<Rightarrow> nat \<Rightarrow> real option list \<Rightarrow> real option list" where
  \<comment> \<open>\<open>x.rolling(w, min_periods=m).std()\<close>\<close>
  "rolling_std w m xs =
     map (\<lambda>i. let vs = present (window w xs i)
              in if m \<le> length vs \<and> 2 \<le> length vs then Some (sample_std vs) else None)
         [0..<length xs]"

definition fillna :: "real \<Rightarrow> real option list \<Rightarrow> real option list" where
  "fillna v xs = map (\<lambda>x. case x of None \<Rightarrow> Some v | Some y \<Rightarrow> Some y) xs"

definition series_sub :: "real option list \<Rightarrow> real option list \<Rightarrow> real option list" where
  \<comment> \<open>\<open>a - b\<close> on two aligned columns; NaN where either is\<close>
  "series_sub xs ys =
     map (\<lambda>(x, y). case (x, y) of (Some a, Some b) \<Rightarrow> Some (a - b) | _ \<Rightarrow> None) (zip xs ys)"

record rolling_features =
  roll3 :: "real option list"
  roll7 :: "real option list"
  roll_std3 :: "real option list"
  trend :: "real option list"

definition compute_rolling_features :: "real option list \<Rightarrow> rolling_features" where
  \<comment> \<open>the body of the loop over the columns, for one column of one region\<close>
  "compute_rolling_features x =
     \<lparr>roll3 = rolling_mean 3 1 x,
      roll7 = rolling_mean 7 1 x,
      roll_std3 = fillna 0 (rolling_std 3 1 x),
      trend = series_sub x (rolling_mean 7 1 x)\<rparr>"


section \<open>The rule bonus as the specification words it\<close>

text \<open>
  The specification describes the rule bonus parameter by parameter: a reading beyond the
  danger threshold adds 20 and a CRITICAL message, a reading beyond only the warning
  threshold adds 10 and a WARNING message, where "beyond" means below for
  \<open>pressure_hpa\<close> and above for every other parameter, and an absent reading adds
  nothing. These three definitions follow those words; \<open>rule_loop\<close> above follows the
  code.
\<close>

definition spec_exceeds :: "string \<Rightarrow> real \<Rightarrow> real \<Rightarrow> bool" where
  "spec_exceeds param v t = (if param = ''pressure_hpa'' then v < t else t < v)"

definition spec_param_bonus :: "string \<Rightarrow> thresholds \<Rightarrow> real option \<Rightarrow> int" where
  "spec_param_bonus param th reading =
     (case reading of
        None \<Rightarrow> 0
      | Some v \<Rightarrow> if spec_exceeds param v (danger th) then 20
                  else if spec_exceeds param v (warning th) then 10 else 0)"

definition spec_param_alerts :: "string \<Rightarrow> thresholds \<Rightarrow> real option \<Rightarrow> rule_alert list" where
  "spec_param_alerts param th reading =
     (case reading of
        None \<Rightarrow> []
      | Some v \<Rightarrow> if spec_exceeds param v (danger th) then [CRITICAL param v (danger th)]
                  else if spec_exceeds param v (warning th) then [WARNING param v (warning th)] else [])"


section \<open>Example inputs\<close>

definition demo_prediction :: ml_prediction where
  "demo_prediction =
     \<lparr>p_disaster_type = Some ''Cyclone'', p_risk_probability = Some (4 / 5),
      p_risk_score = Some 80, p_risk_level = Some ''High'',
      p_recommended_action = Some ''Evacuate'',
      p_class_probabilities = Some [(''Cyclone'', 4 / 5)],
      p_model_version = Some ''rule_based_v1''\<rparr>"

definition wind_pressure_features :: features where
  "wind_pressure_features = [(''wind_speed_kmh'', Some 90), (''pressure_hpa'', Some 985)]"

definition storm_features :: features where
  "storm_features =
     [(''rainfall_mm'', Some 160), (''wind_speed_kmh'', Some 90), (''river_level_m'', None),
      (''temperature_c'', Some 30), (''pressure_hpa'', Some 975)]"

definition flood_request :: PredictRequest where
  "flood_request =
     \<lparr>req_region_id = ''R001'', req_temperature_c = 30, req_rainfall_mm = 120,
      req_humidity_pct = Some 50, req_wind_speed_kmh = Some 10, req_pressure_hpa = Some 1005,
      req_river_level_m = Some 6, req_seismic_signal = Some (1 / 10),
      req_rainfall_gauge_mm = Some 0, req_elevation = Some 10, req_flood_prone = Some 1,
      req_cyclone_prone = Some 0, req_earthquake_zone = Some 3\<rparr>"

definition flood_prediction :: ml_prediction where
  "flood_prediction =
     \<lparr>p_disaster_type = Some ''Flood'', p_risk_probability = Some (3 / 4),
      p_risk_score = Some 75, p_risk_level = Some ''High'',
      p_recommended_action = Some ''Evacuate'',
      p_class_probabilities = Some [(''Flood'', 3 / 4)],
      p_model_version = Some ''rule_based_v1''\<rparr>"

definition region_R001 :: region_info where
  "region_R001 = \<lparr>g_id = Some ''R001'', g_name = Some ''Coastal District''\<rparr>"

definition fresh_store :: store where
  "fresh_store = \<lparr>predictions = [], alerts = [], console = [], alerts_log = []\<rparr>"

definition io_at :: "time \<Rightarrow> io" where
  \<comment> \<open>a call whose clock reads \<open>t\<close> throughout and whose inserts and log all succeed\<close>
  "io_at t =
     \<lparr>t_can_send = t, t_message = t, t_prediction = t, prediction_insert = None,
      alert_insert = None, t_record = t, log_write = None, t_log = t\<rparr>"

definition noon_2026 :: time where
  \<comment> \<open>2026-01-01 12:00 UTC, in microseconds from \<open>datetime.min\<close>\<close>
  "noon_2026 = 63902865600000000"

definition flood_assessment :: risk_result where
  "flood_assessment =
     \<lparr>disaster_type = Some ''Flood'', ml_risk_score = Some 75,
      rule_bonus = Some 20, final_risk_score = Some 95,
      risk_level = Some ''High'', risk_color = Some ''red'',
      risk_emoji = Some ''HIGH'', risk_probability = Some (3 / 4),
      recommended_action =
        Some ''Evacuate - Move to safety immediately. Follow authority instructions.'',
      rule_alerts = Some [WARNING ''rainfall_mm'' 120 80, WARNING ''river_level_m'' 6 5],
      class_probabilities = Some [(''Flood'', 3 / 4)],
      model_version = Some ''rule_based_v1'', confidence = Some (3 / 4),
      timestamp = Some 0, explanation = None\<rparr>"

definition calm_assessment :: risk_result where
  "calm_assessment =
     \<lparr>disaster_type = Some ''None'', ml_risk_score = Some 10,
      rule_bonus = Some 0, final_risk_score = Some 10,
      risk_level = Some ''Low'', risk_color = Some ''green'',
      risk_emoji = Some ''LOW'', risk_probability = Some (9 / 10),
      recommended_action =
        Some ''Monitor - Continue normal activities. Stay informed via alerts.'',
      rule_alerts = Some [],
      class_probabilities = Some [(''None'', 9 / 10)],
      model_version = Some ''v1'', confidence = Some (9 / 10),
      timestamp = Some 0, explanation = None\<rparr>"

definition failing_io_at :: "time \<Rightarrow> io" where
  \<comment> \<open>a call whose clock reads \<open>t\<close> throughout and whose two inserts raise\<close>
  "failing_io_at t =
     \<lparr>t_can_send = t, t_message = t, t_prediction = t,
      prediction_insert = Some ''database is locked'',
      alert_insert = Some ''database is locked'', t_record = t, log_write = None, t_log = t\<rparr>"

definition calm_prediction :: ml_prediction where
  "calm_prediction =
     \<lparr>p_disaster_type = Some ''None'', p_risk_probability = Some (9 / 10),
      p_risk_score = Some 4, p_risk_level = Some ''Low'',
      p_recommended_action = Some ''Monitor'',
      p_class_probabilities = Some [(''None'', 9 / 10)],
      p_model_version = Some ''v1''\<rparr>"

definition calm_request :: PredictRequest where
  "calm_request =
     \<lparr>req_region_id = ''R001'', req_temperature_c = 25, req_rainfall_mm = 0,
      req_humidity_pct = Some 50, req_wind_speed_kmh = Some 10, req_pressure_hpa = Some 1013,
      req_river_level_m = Some 3, req_seismic_signal = Some (1 / 10),
      req_rainfall_gauge_mm = Some 0, req_elevation = Some 10, req_flood_prone = Some 1,
      req_cyclone_prone = Some 0, req_earthquake_zone = Some 3\<rparr>"

definition calm_env :: predict_env where
  "calm_env =
     \<lparr>ml_attempt = Inr calm_prediction, t_score = noon_2026, regions = Inr [region_R001],
      alert_env = io_at noon_2026\<rparr>"

definition sample_series :: "real list" where
  "sample_series = [10, 20, 60, 30]"

definition no_model :: py_error where
  "no_model = Raised ''model file not found''"

definition flood_env :: predict_env where
  "flood_env =
     \<lparr>ml_attempt = Inr flood_prediction, t_score = 0, regions = Inr [region_R001],
      alert_env = io_at noon_2026\<rparr>"

definition fallback_env :: predict_env where
  \<comment> \<open>no trained model can be loaded: the inner \<open>try\<close> block raises\<close>
  "fallback_env =
     \<lparr>ml_attempt = Inl no_model, t_score = 0, regions = Inr [region_R001],
      alert_env = io_at noon_2026\<rparr>"

definition null_wind_request :: PredictRequest where
  \<comment> \<open>the calm request with \<open>wind_speed_kmh\<close> sent as null\<close>
  "null_wind_request = calm_request\<lparr>req_wind_speed_kmh := None\<rparr>"

definition fallback_store :: store where
  \<comment> \<open>the fresh store after the fallback notice has been printed\<close>
  "fallback_store = fresh_store\<lparr>console := [Model_not_available no_model]\<rparr>"


section \<open>Properties of the risk engine\<close>

lemma map_of_RISK_BANDS_level: "\<exists>b. map_of RISK_BANDS (level_of s) = Some b"
  by (simp add: RISK_BANDS_def level_of_def)

lemma map_of_ACTIONS_level: "\<exists>a. map_of ACTIONS (level_of s) = Some a"
  by (simp add: ACTIONS_def level_of_def)

lemma compute_risk_score_fields:
  "\<exists>r. compute_risk_score p rf now = Inr r \<and>
     disaster_type r = Some (dict_get (p_disaster_type p) ''None'') \<and>
     ml_risk_score r = Some (dict_get (p_risk_score p) 0) \<and>
     rule_bonus r = Some (fst (rule_check rf)) \<and>
     rule_alerts r = Some (snd (rule_check rf)) \<and>
     final_risk_score r = Some (min 100 (max 0 (dict_get (p_risk_score p) 0 + fst (rule_check rf)))) \<and>
     risk_level r =
       Some (level_of (min 100 (max 0 (dict_get (p_risk_score p) 0 + fst (rule_check rf))))) \<and>
     recommended_action r =
       map_of ACTIONS (level_of (min 100 (max 0 (dict_get (p_risk_score p) 0 + fst (rule_check rf)))))"
proof -
  define s where "s = min 100 (max 0 (dict_get (p_risk_score p) 0 + fst (rule_check rf)))"
  obtain b where b: "map_of RISK_BANDS (level_of s) = Some b"
    using map_of_RISK_BANDS_level by blast
  obtain a where a: "map_of ACTIONS (level_of s) = Some a"
    using map_of_ACTIONS_level by blast
  have "compute_risk_score p rf now =
     Inr \<lparr>disaster_type = Some (dict_get (p_disaster_type p) ''None''),
          ml_risk_score = Some (dict_get (p_risk_score p) 0),
          rule_bonus = Some (fst (rule_check rf)),
          final_risk_score = Some s,
          risk_level = Some (level_of s),
          risk_color = Some (color b),
          risk_emoji = Some (emoji b),
          risk_probability = Some (dict_get (p_risk_probability p) 0),
          recommended_action = Some a,
          rule_alerts = Some (snd (rule_check rf)),
          class_probabilities = Some (dict_get (p_class_probabilities p) []),
          model_version = Some (dict_get (p_model_version p) ''unknown''),
          confidence = Some (py_round (dict_get (p_risk_probability p) 0) 4),
          timestamp = Some now,
          explanation = None\<rparr>"
    using a b unfolding s_def by (simp add: compute_risk_score_def Let_def split_beta)
  then show ?thesis
    using a unfolding s_def by simp
qed

lemma level_action_cases:
  assumes "0 \<le> s" and "s \<le> 100"
  shows "level_of s = ''Low'' \<and> 0 \<le> s \<and> s \<le> 40 \<and>
           map_of ACTIONS (level_of s) =
             Some ''Monitor - Continue normal activities. Stay informed via alerts.'' \<or>
         level_of s = ''Medium'' \<and> 41 \<le> s \<and> s \<le> 70 \<and>
           map_of ACTIONS (level_of s) =
             Some ''Prepare - Review emergency plans. Secure property. Stay alert.'' \<or>
         level_of s = ''High'' \<and> 71 \<le> s \<and> s \<le> 100 \<and>
           map_of ACTIONS (level_of s) =
             Some ''Evacuate - Move to safety immediately. Follow authority instructions.''"
proof -
  consider "s \<le> 40" | "41 \<le> s" "s \<le> 70" | "71 \<le> s" by linarith
  then show ?thesis
  proof cases
    case 1
    then have "level_of s = ''Low''" by (simp add: level_of_def)
    with 1 assms show ?thesis by (simp add: ACTIONS_def)
  next
    case 2
    then have "level_of s = ''Medium''" by (simp add: level_of_def)
    with 2 show ?thesis by (simp add: ACTIONS_def)
  next
    case 3
    then have "level_of s = ''High''" by (simp add: level_of_def)
    with 3 assms show ?thesis by (simp add: ACTIONS_def)
  qed
qed

lemma rule_loop_sum:
  "rule_loop ts f (b, a) =
     (b + (\<Sum>(param, th)\<leftarrow>ts. spec_param_bonus param th (features_get f param)),
      a @ concat (map (\<lambda>(param, th). spec_param_alerts param th (features_get f param)) ts))"
proof (induction ts arbitrary: b a)
  case Nil
  show ?case by simp
next
  case (Cons x ts)
  obtain param th where x: "x = (param, th)" by (cases x)
  show ?case
    by (cases "features_get f param")
       (simp_all add: x Cons.IH spec_param_bonus_def spec_param_alerts_def spec_exceeds_def)
qed

lemma features_get_Nil: "features_get [] k = None"
  by (simp add: features_get_def)

lemma rule_check_Some:
  "rule_check (Some f) =
     ((\<Sum>(param, th)\<leftarrow>SAFETY_THRESHOLDS. spec_param_bonus param th (features_get f param)),
      concat (map (\<lambda>(param, th). spec_param_alerts param th (features_get f param)) SAFETY_THRESHOLDS))"
proof (cases "f = []")
  case True
  then show ?thesis
    by (simp add: rule_check_def features_get_Nil spec_param_bonus_def spec_param_alerts_def
        SAFETY_THRESHOLDS_def)
next
  case False
  then show ?thesis by (simp add: rule_check_def rule_loop_sum)
qed

lemma rule_check_wind_pressure:
  "rule_check (Some wind_pressure_features) =
     (20, [WARNING ''wind_speed_kmh'' 90 60, WARNING ''pressure_hpa'' 985 995])"
  by (simp add: rule_check_def wind_pressure_features_def SAFETY_THRESHOLDS_def features_get_def)

text \<open>
  C1. For every ML prediction and every raw-feature mapping, \<open>compute_risk_score\<close>
  returns (it never raises). Its base score is the prediction's \<open>risk_score\<close> (0 when the
  key is absent), its bonus is the rule bonus that \<open>rule_check\<close> computes from the raw
  features, and its final score \<open>s\<close> is the integer \<open>min 100 (max 0 (base + bonus))\<close> of
  these two, so it lies in \<open>0..100\<close>. Exactly one of three cases holds: level Low with
  \<open>0 \<le> s \<le> 40\<close> and the "Monitor" action, level Medium with \<open>41 \<le> s \<le> 70\<close> and the
  "Prepare" action, level High with \<open>71 \<le> s \<le> 100\<close> and the "Evacuate" action. The three
  ranges are disjoint and cover \<open>0..100\<close>, so the score fixes the level and the level fixes
  the action.
\<close>

theorem compute_risk_score_bands:
  "\<exists>r s lvl act.
     compute_risk_score p rf now = Inr r \<and>
     ml_risk_score r = Some (dict_get (p_risk_score p) 0) \<and>
     rule_bonus r = Some (fst (rule_check rf)) \<and>
     final_risk_score r = Some s \<and>
     s = min 100 (max 0 (dict_get (p_risk_score p) 0 + fst (rule_check rf))) \<and>
     0 \<le> s \<and> s \<le> 100 \<and>
     risk_level r = Some lvl \<and> recommended_action r = Some act \<and>
     (lvl = ''Low'' \<and> 0 \<le> s \<and> s \<le> 40 \<and>
        act = ''Monitor - Continue normal activities. Stay informed via alerts.'' \<or>
      lvl = ''Medium'' \<and> 41 \<le> s \<and> s \<le> 70 \<and>
        act = ''Prepare - Review emergency plans. Secure property. Stay alert.'' \<or>
      lvl = ''High'' \<and> 71 \<le> s \<and> s \<le> 100 \<and>
        act = ''Evacuate - Move to safety immediately. Follow authority instructions.'')"
proof -
  define s where "s = min 100 (max 0 (dict_get (p_risk_score p) 0 + fst (rule_check rf)))"
  obtain r where r: "compute_risk_score p rf now = Inr r"
    and f: "ml_risk_score r = Some (dict_get (p_risk_score p) 0)"
      "rule_bonus r = Some (fst (rule_check rf))"
      "final_risk_score r = Some s" "risk_level r = Some (level_of s)"
      "recommended_action r = map_of ACTIONS (level_of s)"
    using compute_risk_score_fields [of p rf now] unfolding s_def by blast
  have bounds: "0 \<le> s" "s \<le> 100" by (simp_all add: s_def)
  from level_action_cases [OF bounds] show ?thesis
  proof (elim disjE conjE)
    assume "level_of s = ''Low''" "s \<le> 40"
      "map_of ACTIONS (level_of s) = Some ''Monitor - Continue normal activities. Stay informed via alerts.''"
    with r f bounds show ?thesis unfolding s_def by simp
  next
    assume "level_of s = ''Medium''" "41 \<le> s" "s \<le> 70"
      "map_of ACTIONS (level_of s) = Some ''Prepare - Review emergency plans. Secure property. Stay alert.''"
    with r f bounds show ?thesis unfolding s_def by simp
  next
    assume "level_of s = ''High''" "71 \<le> s"
      "map_of ACTIONS (level_of s) = Some ''Evacuate - Move to safety immediately. Follow authority instructions.''"
    with r f bounds show ?thesis unfolding s_def by simp
  qed
qed

theorem compute_risk_score_bands_witness:
  "\<exists>r. compute_risk_score demo_prediction (Some wind_pressure_features) 0 = Inr r \<and>
     ml_risk_score r = Some 80 \<and> rule_bonus r = Some 20 \<and>
     final_risk_score r = Some 100 \<and> risk_level r = Some ''High'' \<and>
     recommended_action r =
       Some ''Evacuate - Move to safety immediately. Follow authority instructions.''"
  using compute_risk_score_bands [of demo_prediction "Some wind_pressure_features" 0]
  by (auto simp add: rule_check_wind_pressure demo_prediction_def dict_get_def)

text \<open>
  C2. For every raw-feature mapping the rule bonus is the sum, over the six parameters of
  the safety-threshold table, of each parameter's own contribution (20 with a CRITICAL
  message beyond danger, 10 with a WARNING message beyond warning only, nothing for an
  absent reading, pressure compared downwards), and the messages are recorded in table
  order; without raw features the bonus is 0. With wind 90 km/h and pressure 985 hPa as
  the only readings, both exceed only their warning threshold: the bonus is 20 and the
  final score is \<open>min 100 (max 0 (base + 20))\<close>.
\<close>

theorem rule_bonus_additive:
  "(\<exists>r. compute_risk_score p (Some f) now = Inr r \<and>
      rule_bonus r =
        Some (\<Sum>(param, th)\<leftarrow>SAFETY_THRESHOLDS.
                spec_param_bonus param th (features_get f param)) \<and>
      rule_alerts r =
        Some (concat (map (\<lambda>(param, th). spec_param_alerts param th (features_get f param))
                SAFETY_THRESHOLDS))) \<and>
   (\<exists>r. compute_risk_score p None now = Inr r \<and> rule_bonus r = Some 0 \<and> rule_alerts r = Some []) \<and>
   (\<exists>r. compute_risk_score p (Some wind_pressure_features) now = Inr r \<and>
      rule_bonus r = Some 20 \<and>
      rule_alerts r = Some [WARNING ''wind_speed_kmh'' 90 60, WARNING ''pressure_hpa'' 985 995] \<and>
      final_risk_score r = Some (min 100 (max 0 (dict_get (p_risk_score p) 0 + 20))))"
proof (intro conjI)
  show "\<exists>r. compute_risk_score p (Some f) now = Inr r \<and>
      rule_bonus r =
        Some (\<Sum>(param, th)\<leftarrow>SAFETY_THRESHOLDS.
                spec_param_bonus param th (features_get f param)) \<and>
      rule_alerts r =
        Some (concat (map (\<lambda>(param, th). spec_param_alerts param th (features_get f param))
                SAFETY_THRESHOLDS))"
    using compute_risk_score_fields [of p "Some f" now] by (auto simp add: rule_check_Some)
  show "\<exists>r. compute_risk_score p None now = Inr r \<and> rule_bonus r = Some 0 \<and> rule_alerts r = Some []"
    using compute_risk_score_fields [of p None now] by (auto simp add: rule_check_def)
  show "\<exists>r. compute_risk_score p (Some wind_pressure_features) now = Inr r \<and>
      rule_bonus r = Some 20 \<and>
      rule_alerts r = Some [WARNING ''wind_speed_kmh'' 90 60, WARNING ''pressure_hpa'' 985 995] \<and>
      final_risk_score r = Some (min 100 (max 0 (dict_get (p_risk_score p) 0 + 20)))"
    using compute_risk_score_fields [of p "Some wind_pressure_features" now]
    by (auto simp add: rule_check_wind_pressure)
qed

theorem rule_bonus_additive_witness:
  "\<exists>r. compute_risk_score demo_prediction (Some storm_features) 0 = Inr r \<and>
     rule_bonus r = Some 50 \<and>
     rule_alerts r =
       Some [CRITICAL ''rainfall_mm'' 160 150, WARNING ''wind_speed_kmh'' 90 60,
             CRITICAL ''pressure_hpa'' 975 980]"
  using rule_bonus_additive [of demo_prediction storm_features 0]
  by (auto simp add: SAFETY_THRESHOLDS_def storm_features_def features_get_def
      spec_param_bonus_def spec_param_alerts_def spec_exceeds_def)

text \<open>
  C4. \<open>should_trigger_alert\<close> on an assessment with final score \<open>s\<close> and disaster type
  \<open>d\<close> returns true exactly when \<open>40 < s\<close> and \<open>d\<close> is not "None"; it returns false
  for the disaster type "None" whatever the score; and on every assessment that
  \<open>compute_risk_score\<close> produces it returns, without raising, that same condition.
\<close>

theorem should_trigger_alert_iff:
  "should_trigger_alert (r\<lparr>final_risk_score := Some s, disaster_type := Some d\<rparr>) =
     Inr (40 < s \<and> d \<noteq> ''None'') \<and>
   should_trigger_alert (r\<lparr>final_risk_score := Some s, disaster_type := Some ''None''\<rparr>) =
     Inr False \<and>
   (\<exists>r' s'. compute_risk_score p rf now = Inr r' \<and> final_risk_score r' = Some s' \<and>
      should_trigger_alert r' = Inr (40 < s' \<and> dict_get (p_disaster_type p) ''None'' \<noteq> ''None''))"
proof (intro conjI)
  show "should_trigger_alert (r\<lparr>final_risk_score := Some s, disaster_type := Some d\<rparr>) =
     Inr (40 < s \<and> d \<noteq> ''None'')"
    by (simp add: should_trigger_alert_def)
  show "should_trigger_alert (r\<lparr>final_risk_score := Some s, disaster_type := Some ''None''\<rparr>) =
     Inr False"
    by (simp add: should_trigger_alert_def)
  show "\<exists>r' s'. compute_risk_score p rf now = Inr r' \<and> final_risk_score r' = Some s' \<and>
      should_trigger_alert r' = Inr (40 < s' \<and> dict_get (p_disaster_type p) ''None'' \<noteq> ''None'')"
    using compute_risk_score_fields [of p rf now]
    by (auto simp add: should_trigger_alert_def)
qed

theorem should_trigger_alert_iff_witness:
  "\<exists>r. compute_risk_score demo_prediction (Some wind_pressure_features) 0 = Inr r \<and>
     should_trigger_alert r = Inr True"
  using should_trigger_alert_iff [where p = demo_prediction and rf = "Some wind_pressure_features" and now = 0]
    compute_risk_score_fields [of demo_prediction "Some wind_pressure_features" 0]
  by (auto simp add: rule_check_wind_pressure demo_prediction_def dict_get_def)

lemma py_round_example: "py_round (3 / 4) 4 = 3 / 4"
  by (simp add: py_round_def Let_def)

lemma rule_based_prediction_flood:
  assumes "req_rainfall_mm req = 120" and "req_river_level_m req = Some 6"
  shows "rule_based_prediction (req_dict req) =
     Inr \<lparr>p_disaster_type = Some ''Flood'', p_risk_probability = Some (3 / 4),
          p_risk_score = Some 75, p_risk_level = Some ''High'',
          p_recommended_action = Some ''Evacuate'',
          p_class_probabilities = Some [(''Flood'', 3 / 4)],
          p_model_version = Some ''rule_based_v1''\<rparr>"
  using assms
  by (simp add: rule_based_prediction_def req_dict_def features_get_default_def py_gt_def)

lemma flood_rule_check:
  assumes "req_rainfall_mm req = 120" and "req_river_level_m req = Some 6"
    and "req_pressure_hpa req = Some 1005" and "req_temperature_c req \<le> 40"
    and "\<forall>v. req_wind_speed_kmh req = Some v \<longrightarrow> v \<le> 60"
    and "\<forall>v. req_seismic_signal req = Some v \<longrightarrow> v \<le> 3 / 2"
  shows "rule_check (Some (req_dict req)) =
     (20, [WARNING ''rainfall_mm'' 120 80, WARNING ''river_level_m'' 6 5])"
  using assms
  by (auto simp add: rule_check_def req_dict_def SAFETY_THRESHOLDS_def features_get_def
      split: option.splits)

text \<open>
  C3, as the code has it. For a request with rainfall 120 mm and river level 6.0 m the
  fallback predictor returns Flood with base score 75: the first condition holds and the
  later ones are not evaluated (a wind reading of \<open>None\<close>, which would raise in the second
  condition, does no harm). Scored against the same request with pressure 1005 hPa and the
  other readings at or below their warning thresholds, the rule bonus is 20, not 0:
  rainfall 120 exceeds its warning threshold 80 and river level 6.0 exceeds its warning
  threshold 5.0. The final score is 95, the level High, the action "Evacuate".
\<close>

theorem fallback_flood_scenario:
  assumes "req_rainfall_mm req = 120" and "req_river_level_m req = Some 6"
    and "req_pressure_hpa req = Some 1005" and "req_temperature_c req \<le> 40"
    and "\<forall>v. req_wind_speed_kmh req = Some v \<longrightarrow> v \<le> 60"
    and "\<forall>v. req_seismic_signal req = Some v \<longrightarrow> v \<le> 3 / 2"
  shows "\<exists>p r. rule_based_prediction (req_dict req) = Inr p \<and>
           p_disaster_type p = Some ''Flood'' \<and> p_risk_score p = Some 75 \<and>
           compute_risk_score p (Some (req_dict req)) now = Inr r \<and>
           ml_risk_score r = Some 75 \<and> rule_bonus r = Some 20 \<and>
           rule_alerts r = Some [WARNING ''rainfall_mm'' 120 80, WARNING ''river_level_m'' 6 5] \<and>
           final_risk_score r = Some 95 \<and> risk_level r = Some ''High'' \<and>
           recommended_action r =
             Some ''Evacuate - Move to safety immediately. Follow authority instructions.''"
proof -
  have p: "rule_based_prediction (req_dict req) = Inr flood_prediction"
    using assms(1,2) by (simp add: rule_based_prediction_flood flood_prediction_def)
  have c: "rule_check (Some (req_dict req)) =
     (20, [WARNING ''rainfall_mm'' 120 80, WARNING ''river_level_m'' 6 5])"
    using assms by (rule flood_rule_check)
  obtain r where r: "compute_risk_score flood_prediction (Some (req_dict req)) now = Inr r"
    and f: "ml_risk_score r = Some (dict_get (p_risk_score flood_prediction) 0)"
      "rule_bonus r = Some (fst (rule_check (Some (req_dict req))))"
      "rule_alerts r = Some (snd (rule_check (Some (req_dict req))))"
      "final_risk_score r = Some (min 100 (max 0 (dict_get (p_risk_score flood_prediction) 0
          + fst (rule_check (Some (req_dict req))))))"
      "risk_level r = Some (level_of (min 100 (max 0 (dict_get (p_risk_score flood_prediction) 0
          + fst (rule_check (Some (req_dict req)))))))"
      "recommended_action r = map_of ACTIONS (level_of (min 100 (max 0
          (dict_get (p_risk_score flood_prediction) 0 + fst (rule_check (Some (req_dict req)))))))"
    using compute_risk_score_fields [of flood_prediction "Some (req_dict req)" now] by blast
  have base: "dict_get (p_risk_score flood_prediction) 0 = 75"
    by (simp add: flood_prediction_def dict_get_def)
  show ?thesis
    using p r f unfolding c base
    by (simp add: flood_prediction_def level_of_def ACTIONS_def)
qed

theorem fallback_flood_scenario_witness:
  "\<exists>p r. rule_based_prediction (req_dict flood_request) = Inr p \<and>
     p_risk_score p = Some 75 \<and>
     compute_risk_score p (Some (req_dict flood_request)) 0 = Inr r \<and>
     rule_bonus r = Some 20 \<and> final_risk_score r = Some 95 \<and> risk_level r = Some ''High''"
proof -
  have "\<exists>p r. rule_based_prediction (req_dict flood_request) = Inr p \<and>
           p_disaster_type p = Some ''Flood'' \<and> p_risk_score p = Some 75 \<and>
           compute_risk_score p (Some (req_dict flood_request)) 0 = Inr r \<and>
           ml_risk_score r = Some 75 \<and> rule_bonus r = Some 20 \<and>
           rule_alerts r = Some [WARNING ''rainfall_mm'' 120 80, WARNING ''river_level_m'' 6 5] \<and>
           final_risk_score r = Some 95 \<and> risk_level r = Some ''High'' \<and>
           recommended_action r =
             Some ''Evacuate - Move to safety immediately. Follow authority instructions.''"
    by (rule fallback_flood_scenario) (simp_all add: flood_request_def)
  then show ?thesis by blast
qed

text \<open>
  The request of the scenario, evaluated: the rule bonus is 20 and the final score 95,
  where C3 states 0 and 75.
\<close>

theorem fallback_flood_bonus_counterexample:
  "rule_based_prediction (req_dict flood_request) = Inr flood_prediction \<and>
   compute_risk_score flood_prediction (Some (req_dict flood_request)) 0 =
     Inr \<lparr>disaster_type = Some ''Flood'', ml_risk_score = Some 75,
          rule_bonus = Some 20, final_risk_score = Some 95,
          risk_level = Some ''High'', risk_color = Some ''red'',
          risk_emoji = Some ''HIGH'', risk_probability = Some (3 / 4),
          recommended_action =
            Some ''Evacuate - Move to safety immediately. Follow authority instructions.'',
          rule_alerts = Some [WARNING ''rainfall_mm'' 120 80, WARNING ''river_level_m'' 6 5],
          class_probabilities = Some [(''Flood'', 3 / 4)],
          model_version = Some ''rule_based_v1'', confidence = Some (3 / 4),
          timestamp = Some 0, explanation = None\<rparr>"
proof
  show "rule_based_prediction (req_dict flood_request) = Inr flood_prediction"
    unfolding flood_prediction_def
    by (rule rule_based_prediction_flood) (simp_all add: flood_request_def)
  have c: "rule_check (Some (req_dict flood_request)) =
     (20, [WARNING ''rainfall_mm'' 120 80, WARNING ''river_level_m'' 6 5])"
    by (rule flood_rule_check) (simp_all add: flood_request_def)
  show "compute_risk_score flood_prediction (Some (req_dict flood_request)) 0 =
     Inr \<lparr>disaster_type = Some ''Flood'', ml_risk_score = Some 75,
          rule_bonus = Some 20, final_risk_score = Some 95,
          risk_level = Some ''High'', risk_color = Some ''red'',
          risk_emoji = Some ''HIGH'', risk_probability = Some (3 / 4),
          recommended_action =
            Some ''Evacuate - Move to safety immediately. Follow authority instructions.'',
          rule_alerts = Some [WARNING ''rainfall_mm'' 120 80, WARNING ''river_level_m'' 6 5],
          class_probabilities = Some [(''Flood'', 3 / 4)],
          model_version = Some ''rule_based_v1'', confidence = Some (3 / 4),
          timestamp = Some 0, explanation = None\<rparr>"
    by (simp add: compute_risk_score_def c flood_prediction_def dict_get_def level_of_def
        RISK_BANDS_def ACTIONS_def py_round_example Let_def)
qed

lemma can_send_fst:
  "fst (can_send limiter now region_id) = (now - last_alert_of limiter region_id > cooldown limiter)"
  by (simp add: can_send_def defaultdict_getitem_def last_alert_of_def dict_get_def
      split: option.splits)

lemma can_send_snd_last_alert_of:
  "last_alert_of (snd (can_send limiter now region_id)) k = last_alert_of limiter k"
  by (simp add: can_send_def defaultdict_getitem_def last_alert_of_def dict_get_def
      split: option.splits)

lemma can_send_snd_cooldown:
  "cooldown (snd (can_send limiter now region_id)) = cooldown limiter"
  by (simp add: can_send_def defaultdict_getitem_def split: option.splits)

lemma record_send_last_alert_of:
  "last_alert_of (record_send limiter now region_id) k =
     (if k = region_id then now else last_alert_of limiter k)"
  by (simp add: record_send_def last_alert_of_def dict_get_def)

lemma record_send_cooldown: "cooldown (record_send limiter now region_id) = cooldown limiter"
  by (simp add: record_send_def)

lemma generate_alert_rate_limited:
  assumes "\<not> fst (can_send (rate_limiter self) (t_can_send env) (dict_get (g_id region) ''unknown''))"
  shows "generate_alert env self r region st =
     (Inr (Rate_limited (dict_get (g_id region) ''unknown'')),
      self\<lparr>rate_limiter :=
        snd (can_send (rate_limiter self) (t_can_send env) (dict_get (g_id region) ''unknown''))\<rparr>,
      st)"
  using assms by (simp add: generate_alert_def Let_def split_beta)

lemma generate_alert_passed:
  assumes "fst (can_send (rate_limiter self) (t_can_send env) (dict_get (g_id region) ''unknown''))"
  shows "generate_alert env self r region st =
     (let region_id = dict_get (g_id region) ''unknown'';
          stored1 = store_prediction env (build_prediction env r region_id)
                      (build_alert env r region_id (dict_get (g_name region) ''Unknown Region'')) st;
          stored2 = store_alert env (fst stored1) (snd stored1);
          self' = self\<lparr>rate_limiter :=
                    record_send (snd (can_send (rate_limiter self) (t_can_send env) region_id))
                      (t_record env) region_id\<rparr>
      in case deliver_alert env (fst stored2) (snd stored2) of
           (Inl e, st3) \<Rightarrow> (Inl e, self', st3)
         | (Inr _, st3) \<Rightarrow> (Inr (Sent (fst stored2)), self', st3))"
  using assms by (simp add: generate_alert_def Let_def split_beta)

lemma store_prediction_cases:
  "store_prediction env row a st =
     (case prediction_insert env of
        None \<Rightarrow> (a\<lparr>a_prediction_id := Some (Suc (length (predictions st)))\<rparr>,
                 st\<lparr>predictions := predictions st @ [row]\<rparr>)
      | Some e \<Rightarrow> (a, st\<lparr>console := console st @ [Could_not_save_prediction (Raised e)]\<rparr>))"
  by (simp add: store_prediction_def PredictionDAO_insert_def split: option.splits)

lemma store_alert_cases:
  "store_alert env a st =
     (case alert_insert env of
        None \<Rightarrow> (a\<lparr>a_id := Some (Suc (length (alerts st)))\<rparr>, st\<lparr>alerts := alerts st @ [a]\<rparr>)
      | Some e \<Rightarrow> (a, st\<lparr>console := console st @ [Could_not_save_alert (Raised e)]\<rparr>))"
  by (simp add: store_alert_def AlertDAO_insert_def split: option.splits)

lemma py_lower_levels:
  "py_lower ''Low'' = ''low''" "py_lower ''Medium'' = ''medium''" "py_lower ''High'' = ''high''"
  by code_simp+

lemma deliver_alert_ok:
  "log_write env = None \<Longrightarrow>
   deliver_alert env a st =
     (Inr (), st\<lparr>console := console st @
                    [Alert_delivered (a_title a) (a_severity a) (a_delivered_channels a)],
                alerts_log := alerts_log st @ [(t_log env, a_title a, a_severity a)]\<rparr>)"
  by (simp add: deliver_alert_def)

lemma build_alert_fields:
  "a_region_id (build_alert env r region_id region_name) = region_id"
  "a_alert_type (build_alert env r region_id region_name) = dict_get (disaster_type r) ''Unknown''"
  "a_severity (build_alert env r region_id region_name) = py_lower (dict_get (risk_level r) ''Low'')"
  "a_delivered_channels (build_alert env r region_id region_name) = ''web''"
  "a_status (build_alert env r region_id region_name) = ''active''"
  "a_risk_score (build_alert env r region_id region_name) = dict_get (final_risk_score r) 0"
  "a_prediction_id (build_alert env r region_id region_name) = None"
  "a_id (build_alert env r region_id region_name) = None"
  by (simp_all add: build_alert_def Let_def)

lemma generate_alert_effects:
  assumes pass: "fst (can_send (rate_limiter self) (t_can_send env) (dict_get (g_id region) ''unknown''))"
    and log: "log_write env = None"
  shows "\<exists>a0 a1 a2.
    a0 = build_alert env r (dict_get (g_id region) ''unknown'')
           (dict_get (g_name region) ''Unknown Region'') \<and>
    a1 = (case prediction_insert env of
            None \<Rightarrow> a0\<lparr>a_prediction_id := Some (Suc (length (predictions st)))\<rparr>
          | Some e \<Rightarrow> a0) \<and>
    a2 = (case alert_insert env of
            None \<Rightarrow> a1\<lparr>a_id := Some (Suc (length (alerts st)))\<rparr>
          | Some e \<Rightarrow> a1) \<and>
    generate_alert env self r region st =
      (Inr (Sent a2),
       self\<lparr>rate_limiter :=
         record_send (snd (can_send (rate_limiter self) (t_can_send env)
                        (dict_get (g_id region) ''unknown'')))
           (t_record env) (dict_get (g_id region) ''unknown'')\<rparr>,
       \<lparr>predictions = predictions st @
          (case prediction_insert env of
             None \<Rightarrow> [build_prediction env r (dict_get (g_id region) ''unknown'')]
           | Some e \<Rightarrow> []),
        alerts = alerts st @ (case alert_insert env of None \<Rightarrow> [a1] | Some e \<Rightarrow> []),
        console = console st @
          (case prediction_insert env of
             None \<Rightarrow> [] | Some e \<Rightarrow> [Could_not_save_prediction (Raised e)]) @
          (case alert_insert env of
             None \<Rightarrow> [] | Some e \<Rightarrow> [Could_not_save_alert (Raised e)]) @
          [Alert_delivered (a_title a0) (a_severity a0) ''web''],
        alerts_log = alerts_log st @ [(t_log env, a_title a0, a_severity a0)]\<rparr>)"
proof (cases "prediction_insert env")
  case None
  note p = None
  show ?thesis
  proof (cases "alert_insert env")
    case None
    show ?thesis
      by (cases st)
         (simp add: generate_alert_passed [OF pass] Let_def store_prediction_cases
            store_alert_cases deliver_alert_ok [OF log] p None build_alert_fields)
  next
    case (Some e)
    show ?thesis
      by (cases st)
         (simp add: generate_alert_passed [OF pass] Let_def store_prediction_cases
            store_alert_cases deliver_alert_ok [OF log] p Some build_alert_fields)
  qed
next
  case (Some e1)
  note p = Some
  show ?thesis
  proof (cases "alert_insert env")
    case None
    show ?thesis
      by (cases st)
         (simp add: generate_alert_passed [OF pass] Let_def store_prediction_cases
            store_alert_cases deliver_alert_ok [OF log] p None build_alert_fields)
  next
    case (Some e)
    show ?thesis
      by (cases st)
         (simp add: generate_alert_passed [OF pass] Let_def store_prediction_cases
            store_alert_cases deliver_alert_ok [OF log] p Some build_alert_fields)
  qed
qed

lemma new_service_limiter:
  "cooldown (rate_limiter (new_AlertService m)) = timedelta_minutes m"
  "last_alert_of (rate_limiter (new_AlertService m)) k = datetime_min"
  by (simp_all add: new_AlertService_def new_AlertRateLimiter_def last_alert_of_def dict_get_def)

lemma fresh_service_passes:
  "fst (can_send (rate_limiter (new_AlertService 60)) noon_2026 k)"
  by (simp add: can_send_fst new_service_limiter timedelta_minutes_def datetime_min_def
      noon_2026_def)

lemma generate_alert_sent_limiter:
  assumes pass: "fst (can_send (rate_limiter self) (t_can_send env) (dict_get (g_id region) ''unknown''))"
    and log: "log_write env = None"
  shows "cooldown (rate_limiter (fst (snd (generate_alert env self r region st)))) =
           cooldown (rate_limiter self)"
    and "last_alert_of (rate_limiter (fst (snd (generate_alert env self r region st)))) k =
           (if k = dict_get (g_id region) ''unknown'' then t_record env
            else last_alert_of (rate_limiter self) k)"
  using generate_alert_effects [OF pass log, of r st]
  by (auto simp add: record_send_cooldown can_send_snd_cooldown record_send_last_alert_of
      can_send_snd_last_alert_of)

text \<open>
  C6. \<open>can_send\<close> answers true exactly when the time since the region's last alert is
  strictly more than the cooldown. A region never alerted has last-alert instant
  \<open>datetime.min\<close>, so \<open>can_send\<close> is true for it whenever the clock is more than the
  cooldown past \<open>datetime.min\<close> (for the default cooldown: any instant after 01:00 on
  1 January of year 1). The default cooldown of the service is 60 minutes. With that
  cooldown, after a call of \<open>generate_alert\<close> that passed the limiter and was delivered, a
  second call for the same region whose clock reads 30 minutes after the recorded send
  returns \<open>rate_limited\<close>, and one whose clock reads 61 minutes after it returns \<open>sent\<close>.
\<close>

theorem can_send_cooldown:
  "(fst (can_send limiter now region_id) \<longleftrightarrow>
      cooldown limiter < now - last_alert_of limiter region_id) \<and>
   (last_alert limiter region_id = None \<longrightarrow> last_alert_of limiter region_id = datetime_min) \<and>
   (last_alert limiter region_id = None \<and> cooldown limiter < now - datetime_min \<longrightarrow>
      fst (can_send limiter now region_id)) \<and>
   cooldown (rate_limiter (new_AlertService 60)) = timedelta_minutes 60 \<and>
   (cooldown (rate_limiter self) = timedelta_minutes 60 \<and>
    fst (can_send (rate_limiter self) (t_can_send env1) (dict_get (g_id region) ''unknown'')) \<and>
    log_write env1 = None \<longrightarrow>
      (\<exists>a. fst (generate_alert env1 self r1 region st) = Inr (Sent a)) \<and>
      (t_can_send env2 = t_record env1 + timedelta_minutes 30 \<longrightarrow>
         fst (generate_alert env2 (fst (snd (generate_alert env1 self r1 region st))) r2 region
                (snd (snd (generate_alert env1 self r1 region st)))) =
           Inr (Rate_limited (dict_get (g_id region) ''unknown''))) \<and>
      (t_can_send env2 = t_record env1 + timedelta_minutes 61 \<and> log_write env2 = None \<longrightarrow>
         (\<exists>a. fst (generate_alert env2 (fst (snd (generate_alert env1 self r1 region st))) r2
                  region (snd (snd (generate_alert env1 self r1 region st)))) =
            Inr (Sent a))))"
proof (intro conjI impI)
  show "fst (can_send limiter now region_id) \<longleftrightarrow>
      cooldown limiter < now - last_alert_of limiter region_id"
    by (simp add: can_send_fst)
  show "last_alert_of limiter region_id = datetime_min" if "last_alert limiter region_id = None"
    using that by (simp add: last_alert_of_def dict_get_def)
  show "fst (can_send limiter now region_id)"
    if "last_alert limiter region_id = None \<and> cooldown limiter < now - datetime_min"
    using that by (simp add: can_send_fst last_alert_of_def dict_get_def)
  show "cooldown (rate_limiter (new_AlertService 60)) = timedelta_minutes 60"
    by (simp add: new_service_limiter)
next
  assume h: "cooldown (rate_limiter self) = timedelta_minutes 60 \<and>
    fst (can_send (rate_limiter self) (t_can_send env1) (dict_get (g_id region) ''unknown'')) \<and>
    log_write env1 = None"
  then have cd: "cooldown (rate_limiter self) = timedelta_minutes 60"
    and pass: "fst (can_send (rate_limiter self) (t_can_send env1) (dict_get (g_id region) ''unknown''))"
    and log: "log_write env1 = None"
    by simp_all
  let ?res = "generate_alert env1 self r1 region st"
  let ?rid = "dict_get (g_id region) ''unknown''"
  show "\<exists>a. fst ?res = Inr (Sent a)"
    using generate_alert_effects [OF pass log, of r1 st] by auto
  have cd1: "cooldown (rate_limiter (fst (snd ?res))) = timedelta_minutes 60"
    using generate_alert_sent_limiter(1) [OF pass log] cd by simp
  have la1: "last_alert_of (rate_limiter (fst (snd ?res))) ?rid = t_record env1"
    using generate_alert_sent_limiter(2) [OF pass log] by simp
  show "fst (generate_alert env2 (fst (snd ?res)) r2 region (snd (snd ?res))) =
      Inr (Rate_limited ?rid)"
    if "t_can_send env2 = t_record env1 + timedelta_minutes 30"
  proof -
    have "\<not> fst (can_send (rate_limiter (fst (snd ?res))) (t_can_send env2) ?rid)"
      using that by (simp add: can_send_fst cd1 la1 timedelta_minutes_def)
    then show ?thesis by (simp add: generate_alert_rate_limited)
  qed
  show "\<exists>a. fst (generate_alert env2 (fst (snd ?res)) r2 region (snd (snd ?res))) = Inr (Sent a)"
    if "t_can_send env2 = t_record env1 + timedelta_minutes 61 \<and> log_write env2 = None"
  proof -
    have "fst (can_send (rate_limiter (fst (snd ?res))) (t_can_send env2) ?rid)"
      using that by (simp add: can_send_fst cd1 la1 timedelta_minutes_def)
    from generate_alert_effects [OF this, of r2 "snd (snd ?res)"] that
    show ?thesis by auto
  qed
qed

theorem can_send_cooldown_witness:
  "fst (can_send (rate_limiter (new_AlertService 60)) noon_2026 ''R001'') \<and>
   (\<exists>a. fst (generate_alert (io_at noon_2026) (new_AlertService 60) flood_assessment region_R001
            fresh_store) = Inr (Sent a)) \<and>
   fst (generate_alert (io_at (noon_2026 + timedelta_minutes 30))
          (fst (snd (generate_alert (io_at noon_2026) (new_AlertService 60) flood_assessment
             region_R001 fresh_store)))
          flood_assessment region_R001
          (snd (snd (generate_alert (io_at noon_2026) (new_AlertService 60) flood_assessment
             region_R001 fresh_store)))) = Inr (Rate_limited ''R001'') \<and>
   (\<exists>a. fst (generate_alert (io_at (noon_2026 + timedelta_minutes 61))
          (fst (snd (generate_alert (io_at noon_2026) (new_AlertService 60) flood_assessment
             region_R001 fresh_store)))
          flood_assessment region_R001
          (snd (snd (generate_alert (io_at noon_2026) (new_AlertService 60) flood_assessment
             region_R001 fresh_store)))) = Inr (Sent a))"
proof -
  have rid: "dict_get (g_id region_R001) ''unknown'' = ''R001''"
    by (simp add: region_R001_def dict_get_def)
  have pass: "fst (can_send (rate_limiter (new_AlertService 60)) (t_can_send (io_at noon_2026))
      (dict_get (g_id region_R001) ''unknown''))"
    by (simp add: io_at_def fresh_service_passes)
  have io: "log_write (io_at t) = None" "t_can_send (io_at t) = t" "t_record (io_at t) = t" for t
    by (simp_all add: io_at_def)
  note c30 = can_send_cooldown [where self = "new_AlertService 60" and ?env1.0 = "io_at noon_2026"
      and region = region_R001 and ?r1.0 = flood_assessment and st = fresh_store
      and ?env2.0 = "io_at (noon_2026 + timedelta_minutes 30)" and ?r2.0 = flood_assessment]
  note c61 = can_send_cooldown [where self = "new_AlertService 60" and ?env1.0 = "io_at noon_2026"
      and region = region_R001 and ?r1.0 = flood_assessment and st = fresh_store
      and ?env2.0 = "io_at (noon_2026 + timedelta_minutes 61)" and ?r2.0 = flood_assessment]
  show ?thesis
    using c30 c61 pass fresh_service_passes [of "''R001''"]
    by (simp add: io rid new_service_limiter)
qed

lemma a_id_reset: "a_id a = None \<Longrightarrow> a\<lparr>a_id := None\<rparr> = a"
  by (cases a) simp

text \<open>
  C7. When \<open>can_send\<close> is false, \<open>generate_alert\<close> returns \<open>rate_limited\<close> and leaves
  the store as it was (no prediction and no alert inserted, nothing printed, no log line),
  the cooldown as it was and every region's last-alert instant as it was. Hence, for
  two consecutive calls for the same region where the first passes the limiter, its alert
  insert and its delivery succeed, and the second falls within the cooldown window: the
  first returns \<open>sent\<close>, the second \<open>rate_limited\<close>, and the alerts table has gained
  exactly one row, the alert of the first call.
\<close>

theorem rate_limited_without_effects:
  "(\<not> fst (can_send (rate_limiter self) (t_can_send env) (dict_get (g_id region) ''unknown'')) \<longrightarrow>
      fst (generate_alert env self r region st) =
        Inr (Rate_limited (dict_get (g_id region) ''unknown'')) \<and>
      snd (snd (generate_alert env self r region st)) = st \<and>
      cooldown (rate_limiter (fst (snd (generate_alert env self r region st)))) =
        cooldown (rate_limiter self) \<and>
      (\<forall>k. last_alert_of (rate_limiter (fst (snd (generate_alert env self r region st)))) k =
           last_alert_of (rate_limiter self) k)) \<and>
   (fst (can_send (rate_limiter self) (t_can_send env1) (dict_get (g_id region) ''unknown'')) \<and>
    log_write env1 = None \<and> alert_insert env1 = None \<and>
    t_can_send env2 - t_record env1 \<le> cooldown (rate_limiter self) \<longrightarrow>
      (\<exists>a. fst (generate_alert env1 self r1 region st) = Inr (Sent a) \<and>
         fst (generate_alert env2 (fst (snd (generate_alert env1 self r1 region st))) r2 region
                (snd (snd (generate_alert env1 self r1 region st)))) =
           Inr (Rate_limited (dict_get (g_id region) ''unknown'')) \<and>
         alerts (snd (snd (generate_alert env2
                   (fst (snd (generate_alert env1 self r1 region st))) r2 region
                   (snd (snd (generate_alert env1 self r1 region st)))))) =
           alerts st @ [a\<lparr>a_id := None\<rparr>]))"
proof (intro conjI impI)
  let ?rid = "dict_get (g_id region) ''unknown''"
  assume no: "\<not> fst (can_send (rate_limiter self) (t_can_send env) ?rid)"
  note eq = generate_alert_rate_limited [OF no, of r st]
  show "fst (generate_alert env self r region st) = Inr (Rate_limited ?rid)"
    by (simp add: eq)
  show "snd (snd (generate_alert env self r region st)) = st"
    by (simp add: eq)
  show "cooldown (rate_limiter (fst (snd (generate_alert env self r region st)))) =
      cooldown (rate_limiter self)"
    by (simp add: eq can_send_snd_cooldown)
  show "\<forall>k. last_alert_of (rate_limiter (fst (snd (generate_alert env self r region st)))) k =
      last_alert_of (rate_limiter self) k"
    by (simp add: eq can_send_snd_last_alert_of)
next
  let ?rid = "dict_get (g_id region) ''unknown''"
  let ?res = "generate_alert env1 self r1 region st"
  assume h: "fst (can_send (rate_limiter self) (t_can_send env1) ?rid) \<and>
    log_write env1 = None \<and> alert_insert env1 = None \<and>
    t_can_send env2 - t_record env1 \<le> cooldown (rate_limiter self)"
  then have pass: "fst (can_send (rate_limiter self) (t_can_send env1) ?rid)"
    and log: "log_write env1 = None" and ins: "alert_insert env1 = None"
    and win: "t_can_send env2 - t_record env1 \<le> cooldown (rate_limiter self)"
    by simp_all
  obtain a0 a1 a2 where a0: "a0 = build_alert env1 r1 ?rid (dict_get (g_name region) ''Unknown Region'')"
    and a1: "a1 = (case prediction_insert env1 of
                     None \<Rightarrow> a0\<lparr>a_prediction_id := Some (Suc (length (predictions st)))\<rparr>
                   | Some e \<Rightarrow> a0)"
    and a2: "a2 = a1\<lparr>a_id := Some (Suc (length (alerts st)))\<rparr>"
    and a: "fst ?res = Inr (Sent a2)"
    and al': "alerts (snd (snd ?res)) = alerts st @ [a1]"
    using generate_alert_effects [OF pass log, of r1 st] ins by auto
  have "a_id a1 = None"
    unfolding a1 a0 by (simp add: build_alert_fields split: option.splits)
  then have "a2\<lparr>a_id := None\<rparr> = a1"
    unfolding a2 by (simp add: a_id_reset)
  with al' have al: "alerts (snd (snd ?res)) = alerts st @ [a2\<lparr>a_id := None\<rparr>]"
    by simp
  have "\<not> fst (can_send (rate_limiter (fst (snd ?res))) (t_can_send env2) ?rid)"
    using win generate_alert_sent_limiter [OF pass log, of r1 st]
    by (simp add: can_send_fst)
  note eq = generate_alert_rate_limited [OF this, of r2 "snd (snd ?res)"]
  show "\<exists>a. fst ?res = Inr (Sent a) \<and>
         fst (generate_alert env2 (fst (snd ?res)) r2 region (snd (snd ?res))) =
           Inr (Rate_limited ?rid) \<and>
         alerts (snd (snd (generate_alert env2 (fst (snd ?res)) r2 region (snd (snd ?res))))) =
           alerts st @ [a\<lparr>a_id := None\<rparr>]"
    using a al by (simp add: eq)
qed

theorem rate_limited_without_effects_witness:
  "(\<exists>a. fst (generate_alert (io_at noon_2026) (new_AlertService 60) flood_assessment region_R001
            fresh_store) = Inr (Sent a) \<and>
      fst (generate_alert (io_at (noon_2026 + timedelta_minutes 30))
          (fst (snd (generate_alert (io_at noon_2026) (new_AlertService 60) flood_assessment
             region_R001 fresh_store)))
          flood_assessment region_R001
          (snd (snd (generate_alert (io_at noon_2026) (new_AlertService 60) flood_assessment
             region_R001 fresh_store)))) = Inr (Rate_limited ''R001'') \<and>
      alerts (snd (snd (generate_alert (io_at (noon_2026 + timedelta_minutes 30))
          (fst (snd (generate_alert (io_at noon_2026) (new_AlertService 60) flood_assessment
             region_R001 fresh_store)))
          flood_assessment region_R001
          (snd (snd (generate_alert (io_at noon_2026) (new_AlertService 60) flood_assessment
             region_R001 fresh_store)))))) = [a\<lparr>a_id := None\<rparr>])"
proof -
  have rid: "dict_get (g_id region_R001) ''unknown'' = ''R001''"
    by (simp add: region_R001_def dict_get_def)
  have io: "log_write (io_at t) = None" "t_can_send (io_at t) = t" "t_record (io_at t) = t"
    "alert_insert (io_at t) = None" for t
    by (simp_all add: io_at_def)
  note w = rate_limited_without_effects [where self = "new_AlertService 60"
      and ?env1.0 = "io_at noon_2026" and region = region_R001 and ?r1.0 = flood_assessment
      and st = fresh_store and ?env2.0 = "io_at (noon_2026 + timedelta_minutes 30)"
      and ?r2.0 = flood_assessment]
  have st: "alerts fresh_store = []" by (simp add: fresh_store_def)
  show ?thesis
    using w fresh_service_passes [of "''R001''"]
    by (simp add: io rid new_service_limiter timedelta_minutes_def st)
qed

text \<open>
  C8. For every assessment that passes the rate limiter, whatever the two inserts do
  (succeed or raise), as long as the delivery log can be written: \<open>generate_alert\<close> returns
  \<open>sent\<close> with the alert payload (carrying the ids of the inserts that succeeded), the
  send is recorded in the rate limiter, each failed insert is printed, the delivery banner
  is printed after them and one line is appended to the delivery log.
\<close>

theorem persistence_failure_does_not_abort:
  assumes "fst (can_send (rate_limiter self) (t_can_send env) (dict_get (g_id region) ''unknown''))"
    and "log_write env = None"
  shows "\<exists>a self' st'.
    generate_alert env self r region st = (Inr (Sent a), self', st') \<and>
    a_region_id a = dict_get (g_id region) ''unknown'' \<and>
    a_alert_type a = dict_get (disaster_type r) ''Unknown'' \<and>
    a_prediction_id a =
      (case prediction_insert env of None \<Rightarrow> Some (Suc (length (predictions st))) | Some e \<Rightarrow> None) \<and>
    a_id a = (case alert_insert env of None \<Rightarrow> Some (Suc (length (alerts st))) | Some e \<Rightarrow> None) \<and>
    last_alert_of (rate_limiter self') (dict_get (g_id region) ''unknown'') = t_record env \<and>
    console st' = console st @
      (case prediction_insert env of
         None \<Rightarrow> [] | Some e \<Rightarrow> [Could_not_save_prediction (Raised e)]) @
      (case alert_insert env of
         None \<Rightarrow> [] | Some e \<Rightarrow> [Could_not_save_alert (Raised e)]) @
      [Alert_delivered (a_title a) (a_severity a) (a_delivered_channels a)] \<and>
    alerts_log st' = alerts_log st @ [(t_log env, a_title a, a_severity a)]"
  using generate_alert_effects [OF assms, of r st]
  by (auto simp add: build_alert_fields record_send_last_alert_of split: option.splits)

theorem persistence_failure_does_not_abort_witness:
  "\<exists>a self' st'.
    generate_alert (failing_io_at noon_2026) (new_AlertService 60) flood_assessment region_R001
      fresh_store = (Inr (Sent a), self', st') \<and>
    a_prediction_id a = None \<and> a_id a = None \<and>
    last_alert_of (rate_limiter self') ''R001'' = noon_2026 \<and>
    predictions st' = [] \<and> alerts st' = [] \<and>
    console st' =
      [Could_not_save_prediction (Raised ''database is locked''),
       Could_not_save_alert (Raised ''database is locked''),
       Alert_delivered (a_title a) (a_severity a) (a_delivered_channels a)] \<and>
    alerts_log st' = [(noon_2026, a_title a, a_severity a)]"
proof -
  have rid: "dict_get (g_id region_R001) ''unknown'' = ''R001''"
    by (simp add: region_R001_def dict_get_def)
  have pass: "fst (can_send (rate_limiter (new_AlertService 60))
      (t_can_send (failing_io_at noon_2026)) (dict_get (g_id region_R001) ''unknown''))"
    by (simp add: failing_io_at_def fresh_service_passes)
  have log: "log_write (failing_io_at noon_2026) = None"
    by (simp add: failing_io_at_def)
  from persistence_failure_does_not_abort [OF pass log, of flood_assessment fresh_store]
  obtain a self' st' where
    g: "generate_alert (failing_io_at noon_2026) (new_AlertService 60) flood_assessment
          region_R001 fresh_store = (Inr (Sent a), self', st')"
    and f: "a_prediction_id a = None" "a_id a = None"
      "last_alert_of (rate_limiter self') ''R001'' = noon_2026"
      "console st' =
        [Could_not_save_prediction (Raised ''database is locked''),
         Could_not_save_alert (Raised ''database is locked''),
         Alert_delivered (a_title a) (a_severity a) (a_delivered_channels a)]"
      "alerts_log st' = [(noon_2026, a_title a, a_severity a)]"
    by (auto simp add: rid failing_io_at_def fresh_store_def)
  from generate_alert_effects [OF pass log, of flood_assessment fresh_store] g
  have "predictions st' = []" "alerts st' = []"
    by (auto simp add: failing_io_at_def fresh_store_def)
  with g f show ?thesis by blast
qed

lemma predict_risk_not_triggered:
  assumes "ml_attempt env = Inr p"
    and "compute_risk_score p (Some (req_dict req)) (t_score env) = Inr r"
    and "should_trigger_alert r = Inr False"
  shows "predict_risk env req (g, st) = (Inr r, g, st)"
  using assms by (simp add: predict_risk_def)

lemma predict_risk_triggered:
  assumes "ml_attempt env = Inr p"
    and "compute_risk_score p (Some (req_dict req)) (t_score env) = Inr r"
    and "should_trigger_alert r = Inr True"
  shows "snd (predict_risk env req (g, st)) =
     (Some (fst (snd (generate_alert (alert_env env) (fst (get_alert_service g)) r
                        (get_region_info (regions env) (req_region_id req)) st))),
      snd (snd (generate_alert (alert_env env) (fst (get_alert_service g)) r
                  (get_region_info (regions env) (req_region_id req)) st)))"
  using assms by (simp add: predict_risk_def Let_def split_beta split: prod.splits sum.splits)

lemma predict_risk_fallback_raises:
  assumes "ml_attempt env = Inl e" and "rule_based_prediction (req_dict req) = Inl e'"
  shows "predict_risk env req (g, st) =
     (Inl e', g, st\<lparr>console := console st @ [Model_not_available e]\<rparr>)"
  using assms by (simp add: predict_risk_def)

lemma predict_risk_fallback_not_triggered:
  assumes "ml_attempt env = Inl e" and "rule_based_prediction (req_dict req) = Inr p"
    and "compute_risk_score p (Some (req_dict req)) (t_score env) = Inr r"
    and "should_trigger_alert r = Inr False"
  shows "predict_risk env req (g, st) =
     (Inr r, g, st\<lparr>console := console st @ [Model_not_available e]\<rparr>)"
  using assms by (simp add: predict_risk_def)

lemma predict_risk_fallback_triggered:
  assumes "ml_attempt env = Inl e" and "rule_based_prediction (req_dict req) = Inr p"
    and "compute_risk_score p (Some (req_dict req)) (t_score env) = Inr r"
    and "should_trigger_alert r = Inr True"
  shows "snd (predict_risk env req (g, st)) =
     (Some (fst (snd (generate_alert (alert_env env) (fst (get_alert_service g)) r
                        (get_region_info (regions env) (req_region_id req))
                        (st\<lparr>console := console st @ [Model_not_available e]\<rparr>)))),
      snd (snd (generate_alert (alert_env env) (fst (get_alert_service g)) r
                  (get_region_info (regions env) (req_region_id req))
                  (st\<lparr>console := console st @ [Model_not_available e]\<rparr>))))"
  using assms by (simp add: predict_risk_def Let_def split_beta split: prod.splits sum.splits)

lemma flood_env_assessment:
  "compute_risk_score flood_prediction (Some (req_dict flood_request)) 0 = Inr flood_assessment"
proof -
  have c: "rule_check (Some (req_dict flood_request)) =
     (20, [WARNING ''rainfall_mm'' 120 80, WARNING ''river_level_m'' 6 5])"
    by (rule flood_rule_check) (simp_all add: flood_request_def)
  show ?thesis
    by (simp add: compute_risk_score_def c flood_prediction_def dict_get_def level_of_def
        RISK_BANDS_def ACTIONS_def py_round_example Let_def flood_assessment_def)
qed

lemma calm_fallback_prediction:
  "rule_based_prediction (req_dict calm_request) =
     Inr \<lparr>p_disaster_type = Some ''None'', p_risk_probability = Some 0,
          p_risk_score = Some 0, p_risk_level = Some ''Low'',
          p_recommended_action = Some ''Monitor'',
          p_class_probabilities = Some [(''None'', 0)],
          p_model_version = Some ''rule_based_v1''\<rparr>"
  by (simp add: rule_based_prediction_def req_dict_def calm_request_def
      features_get_default_def py_gt_def py_lt_def)

lemma null_wind_fallback_raises:
  "rule_based_prediction (req_dict null_wind_request) = Inl TypeError"
  by (simp add: rule_based_prediction_def req_dict_def calm_request_def null_wind_request_def
      features_get_default_def py_gt_def py_lt_def)

text \<open>
  C10. \<open>generate_alert\<close> looks at the rate limiter only: for every risk result, whatever
  its level and disaster type (the theorem has no hypothesis on them), a call that passes
  the limiter and can write the delivery log returns \<open>sent\<close>, prints the banner, appends
  the log line, and inserts the prediction and the alert when the inserts succeed; that
  holds for results on which \<open>should_trigger_alert\<close> is false, such as a Low result of
  type "None". The gate sits in the caller, on both of its paths. When the model answers,
  \<open>predict_risk\<close> calls \<open>generate_alert\<close> when \<open>should_trigger_alert\<close> is true, and when
  it is false returns the assessment with the alert service and the store untouched. When
  the model is not available, \<open>predict_risk\<close> prints the notice and scores the rule-based
  prediction instead: it calls \<open>generate_alert\<close> when \<open>should_trigger_alert\<close> is true of
  that assessment, returns the assessment with only the notice printed when it is false,
  and, when the rule-based predictor itself raises, raises that error before any
  assessment exists, again with only the notice printed.
\<close>

theorem generate_alert_has_no_gate:
  "(fst (can_send (rate_limiter self) (t_can_send env) (dict_get (g_id region) ''unknown'')) \<and>
    log_write env = None \<longrightarrow>
      (\<exists>a self' st'.
         generate_alert env self r region st = (Inr (Sent a), self', st') \<and>
         a_alert_type a = dict_get (disaster_type r) ''Unknown'' \<and>
         a_severity a = py_lower (dict_get (risk_level r) ''Low'') \<and>
         a_risk_score a = dict_get (final_risk_score r) 0 \<and>
         (prediction_insert env = None \<longrightarrow>
            predictions st' = predictions st @
              [build_prediction env r (dict_get (g_id region) ''unknown'')]) \<and>
         (alert_insert env = None \<longrightarrow> alerts st' = alerts st @ [a\<lparr>a_id := None\<rparr>]) \<and>
         (\<exists>failures. console st' = console st @ failures @
            [Alert_delivered (a_title a) (a_severity a) (a_delivered_channels a)]) \<and>
         alerts_log st' = alerts_log st @ [(t_log env, a_title a, a_severity a)])) \<and>
   (ml_attempt penv = Inr p \<and>
    compute_risk_score p (Some (req_dict req)) (t_score penv) = Inr r' \<and>
    should_trigger_alert r' = Inr False \<longrightarrow>
      predict_risk penv req (g, st) = (Inr r', g, st)) \<and>
   (ml_attempt penv = Inr p \<and>
    compute_risk_score p (Some (req_dict req)) (t_score penv) = Inr r' \<and>
    should_trigger_alert r' = Inr True \<longrightarrow>
      snd (predict_risk penv req (g, st)) =
        (Some (fst (snd (generate_alert (alert_env penv) (fst (get_alert_service g)) r'
                           (get_region_info (regions penv) (req_region_id req)) st))),
         snd (snd (generate_alert (alert_env penv) (fst (get_alert_service g)) r'
                     (get_region_info (regions penv) (req_region_id req)) st)))) \<and>
   (ml_attempt penv = Inl e \<and> rule_based_prediction (req_dict req) = Inl e' \<longrightarrow>
      predict_risk penv req (g, st) =
        (Inl e', g, st\<lparr>console := console st @ [Model_not_available e]\<rparr>)) \<and>
   (ml_attempt penv = Inl e \<and> rule_based_prediction (req_dict req) = Inr p \<and>
    compute_risk_score p (Some (req_dict req)) (t_score penv) = Inr r' \<and>
    should_trigger_alert r' = Inr False \<longrightarrow>
      predict_risk penv req (g, st) =
        (Inr r', g, st\<lparr>console := console st @ [Model_not_available e]\<rparr>)) \<and>
   (ml_attempt penv = Inl e \<and> rule_based_prediction (req_dict req) = Inr p \<and>
    compute_risk_score p (Some (req_dict req)) (t_score penv) = Inr r' \<and>
    should_trigger_alert r' = Inr True \<longrightarrow>
      snd (predict_risk penv req (g, st)) =
        (Some (fst (snd (generate_alert (alert_env penv) (fst (get_alert_service g)) r'
                           (get_region_info (regions penv) (req_region_id req))
                           (st\<lparr>console := console st @ [Model_not_available e]\<rparr>)))),
         snd (snd (generate_alert (alert_env penv) (fst (get_alert_service g)) r'
                     (get_region_info (regions penv) (req_region_id req))
                     (st\<lparr>console := console st @ [Model_not_available e]\<rparr>)))))"
proof (intro conjI impI)
  let ?rid = "dict_get (g_id region) ''unknown''"
  assume h: "fst (can_send (rate_limiter self) (t_can_send env) ?rid) \<and> log_write env = None"
  then have pass: "fst (can_send (rate_limiter self) (t_can_send env) ?rid)"
    and log: "log_write env = None" by simp_all
  obtain a0 a1 a2 where
    a0: "a0 = build_alert env r ?rid (dict_get (g_name region) ''Unknown Region'')"
    and a1: "a1 = (case prediction_insert env of
                     None \<Rightarrow> a0\<lparr>a_prediction_id := Some (Suc (length (predictions st)))\<rparr>
                   | Some e \<Rightarrow> a0)"
    and a2: "a2 = (case alert_insert env of
                     None \<Rightarrow> a1\<lparr>a_id := Some (Suc (length (alerts st)))\<rparr>
                   | Some e \<Rightarrow> a1)"
    and g: "generate_alert env self r region st =
      (Inr (Sent a2),
       self\<lparr>rate_limiter :=
         record_send (snd (can_send (rate_limiter self) (t_can_send env) ?rid))
           (t_record env) ?rid\<rparr>,
       \<lparr>predictions = predictions st @
          (case prediction_insert env of
             None \<Rightarrow> [build_prediction env r ?rid]
           | Some e \<Rightarrow> []),
        alerts = alerts st @ (case alert_insert env of None \<Rightarrow> [a1] | Some e \<Rightarrow> []),
        console = console st @
          (case prediction_insert env of
             None \<Rightarrow> [] | Some e \<Rightarrow> [Could_not_save_prediction (Raised e)]) @
          (case alert_insert env of
             None \<Rightarrow> [] | Some e \<Rightarrow> [Could_not_save_alert (Raised e)]) @
          [Alert_delivered (a_title a0) (a_severity a0) ''web''],
        alerts_log = alerts_log st @ [(t_log env, a_title a0, a_severity a0)]\<rparr>)"
    using generate_alert_effects [OF pass log, of r st] by blast
  have same: "a_title a2 = a_title a0" "a_severity a2 = a_severity a0"
    "a_delivered_channels a2 = ''web''" "a_alert_type a2 = a_alert_type a0"
    "a_risk_score a2 = a_risk_score a0"
    unfolding a2 a1 a0 by (simp_all add: build_alert_fields split: option.splits)
  have "a_id a1 = None"
    unfolding a1 a0 by (simp add: build_alert_fields split: option.splits)
  then have reset: "alert_insert env = None \<longrightarrow> a2\<lparr>a_id := None\<rparr> = a1"
    unfolding a2 by (simp add: a_id_reset)
  show "\<exists>a self' st'.
         generate_alert env self r region st = (Inr (Sent a), self', st') \<and>
         a_alert_type a = dict_get (disaster_type r) ''Unknown'' \<and>
         a_severity a = py_lower (dict_get (risk_level r) ''Low'') \<and>
         a_risk_score a = dict_get (final_risk_score r) 0 \<and>
         (prediction_insert env = None \<longrightarrow>
            predictions st' = predictions st @ [build_prediction env r ?rid]) \<and>
         (alert_insert env = None \<longrightarrow> alerts st' = alerts st @ [a\<lparr>a_id := None\<rparr>]) \<and>
         (\<exists>failures. console st' = console st @ failures @
            [Alert_delivered (a_title a) (a_severity a) (a_delivered_channels a)]) \<and>
         alerts_log st' = alerts_log st @ [(t_log env, a_title a, a_severity a)]"
    unfolding g
    apply (intro exI conjI)
            apply (rule refl)
    using same reset a0
           apply (simp_all add: build_alert_fields)
    done
next
  assume "ml_attempt penv = Inr p \<and>
    compute_risk_score p (Some (req_dict req)) (t_score penv) = Inr r' \<and>
    should_trigger_alert r' = Inr False"
  then show "predict_risk penv req (g, st) = (Inr r', g, st)"
    by (simp add: predict_risk_not_triggered)
next
  assume "ml_attempt penv = Inr p \<and>
    compute_risk_score p (Some (req_dict req)) (t_score penv) = Inr r' \<and>
    should_trigger_alert r' = Inr True"
  then show "snd (predict_risk penv req (g, st)) =
        (Some (fst (snd (generate_alert (alert_env penv) (fst (get_alert_service g)) r'
                           (get_region_info (regions penv) (req_region_id req)) st))),
         snd (snd (generate_alert (alert_env penv) (fst (get_alert_service g)) r'
                     (get_region_info (regions penv) (req_region_id req)) st)))"
    by (simp add: predict_risk_triggered)
next
  assume "ml_attempt penv = Inl e \<and> rule_based_prediction (req_dict req) = Inl e'"
  then show "predict_risk penv req (g, st) =
        (Inl e', g, st\<lparr>console := console st @ [Model_not_available e]\<rparr>)"
    by (simp add: predict_risk_fallback_raises)
next
  assume "ml_attempt penv = Inl e \<and> rule_based_prediction (req_dict req) = Inr p \<and>
    compute_risk_score p (Some (req_dict req)) (t_score penv) = Inr r' \<and>
    should_trigger_alert r' = Inr False"
  then show "predict_risk penv req (g, st) =
        (Inr r', g, st\<lparr>console := console st @ [Model_not_available e]\<rparr>)"
    by (simp add: predict_risk_fallback_not_triggered)
next
  assume "ml_attempt penv = Inl e \<and> rule_based_prediction (req_dict req) = Inr p \<and>
    compute_risk_score p (Some (req_dict req)) (t_score penv) = Inr r' \<and>
    should_trigger_alert r' = Inr True"
  then show "snd (predict_risk penv req (g, st)) =
        (Some (fst (snd (generate_alert (alert_env penv) (fst (get_alert_service g)) r'
                           (get_region_info (regions penv) (req_region_id req))
                           (st\<lparr>console := console st @ [Model_not_available e]\<rparr>)))),
         snd (snd (generate_alert (alert_env penv) (fst (get_alert_service g)) r'
                     (get_region_info (regions penv) (req_region_id req))
                     (st\<lparr>console := console st @ [Model_not_available e]\<rparr>))))"
    by (simp add: predict_risk_fallback_triggered)
qed

theorem generate_alert_has_no_gate_witness:
  "should_trigger_alert calm_assessment = Inr False \<and>
   (\<exists>a self' st'.
      generate_alert (io_at noon_2026) (new_AlertService 60) calm_assessment region_R001
        fresh_store = (Inr (Sent a), self', st') \<and>
      a_alert_type a = ''None'' \<and> a_severity a = ''low'' \<and> a_risk_score a = 10 \<and>
      alerts st' = [a\<lparr>a_id := None\<rparr>] \<and>
      alerts_log st' = [(noon_2026, a_title a, a_severity a)]) \<and>
   (\<exists>r. predict_risk calm_env calm_request (None, fresh_store) = (Inr r, None, fresh_store) \<and>
      risk_level r = Some ''Low'' \<and> disaster_type r = Some ''None'') \<and>
   snd (predict_risk flood_env flood_request (None, fresh_store)) =
     (Some (fst (snd (generate_alert (io_at noon_2026) (new_AlertService 60) flood_assessment
                        region_R001 fresh_store))),
      snd (snd (generate_alert (io_at noon_2026) (new_AlertService 60) flood_assessment
                  region_R001 fresh_store))) \<and>
   predict_risk fallback_env null_wind_request (None, fresh_store) =
     (Inl TypeError, None, fallback_store) \<and>
   (\<exists>r. predict_risk fallback_env calm_request (None, fresh_store) =
          (Inr r, None, fallback_store) \<and>
      risk_level r = Some ''Low'' \<and> disaster_type r = Some ''None'') \<and>
   snd (predict_risk fallback_env flood_request (None, fresh_store)) =
     (Some (fst (snd (generate_alert (io_at noon_2026) (new_AlertService 60) flood_assessment
                        region_R001 fallback_store))),
      snd (snd (generate_alert (io_at noon_2026) (new_AlertService 60) flood_assessment
                  region_R001 fallback_store)))"
proof (intro conjI)
  show "should_trigger_alert calm_assessment = Inr False"
    by (simp add: should_trigger_alert_def calm_assessment_def)
  have rid: "dict_get (g_id region_R001) ''unknown'' = ''R001''"
    by (simp add: region_R001_def dict_get_def)
  have io: "log_write (io_at t) = None" "t_can_send (io_at t) = t" "t_log (io_at t) = t"
    "alert_insert (io_at t) = None" "prediction_insert (io_at t) = None" for t
    by (simp_all add: io_at_def)
  have calm: "dict_get (disaster_type calm_assessment) ''Unknown'' = ''None''"
    "dict_get (risk_level calm_assessment) ''Low'' = ''Low''"
    "dict_get (final_risk_score calm_assessment) 0 = 10"
    by (simp_all add: calm_assessment_def dict_get_def)
  have st: "alerts fresh_store = []" "alerts_log fresh_store = []"
    by (simp_all add: fresh_store_def)
  note w = generate_alert_has_no_gate [where self = "new_AlertService 60"
      and env = "io_at noon_2026" and region = region_R001 and r = calm_assessment
      and st = fresh_store]
  have prem: "fst (can_send (rate_limiter (new_AlertService 60)) (t_can_send (io_at noon_2026))
      (dict_get (g_id region_R001) ''unknown'')) \<and> log_write (io_at noon_2026) = None"
    by (simp add: io fresh_service_passes)
  from w [THEN conjunct1, THEN mp, OF prem]
  show "\<exists>a self' st'.
      generate_alert (io_at noon_2026) (new_AlertService 60) calm_assessment region_R001
        fresh_store = (Inr (Sent a), self', st') \<and>
      a_alert_type a = ''None'' \<and> a_severity a = ''low'' \<and> a_risk_score a = 10 \<and>
      alerts st' = [a\<lparr>a_id := None\<rparr>] \<and>
      alerts_log st' = [(noon_2026, a_title a, a_severity a)]"
    apply (elim exE conjE)
    subgoal for a self' st' failures
      apply (rule exI [of _ a], rule exI [of _ self'], rule exI [of _ st'])
      apply (simp add: io calm st py_lower_levels)
      done
    done
  have c: "rule_check (Some (req_dict calm_request)) = (0, [])"
    by (simp add: rule_check_def req_dict_def calm_request_def SAFETY_THRESHOLDS_def
        features_get_def)
  have calm_scored: "\<exists>r. compute_risk_score p (Some (req_dict calm_request)) t = Inr r \<and>
      disaster_type r = Some ''None'' \<and> risk_level r = Some ''Low'' \<and>
      should_trigger_alert r = Inr False"
    if "dict_get (p_disaster_type p) ''None'' = ''None''" "dict_get (p_risk_score p) 0 \<le> 40"
    for p t
  proof -
    obtain r where r: "compute_risk_score p (Some (req_dict calm_request)) t = Inr r"
      and f: "disaster_type r = Some (dict_get (p_disaster_type p) ''None'')"
        "final_risk_score r = Some (min 100 (max 0 (dict_get (p_risk_score p) 0
            + fst (rule_check (Some (req_dict calm_request))))))"
        "risk_level r = Some (level_of (min 100 (max 0 (dict_get (p_risk_score p) 0
            + fst (rule_check (Some (req_dict calm_request)))))))"
      using compute_risk_score_fields [of p "Some (req_dict calm_request)" t] by blast
    have f': "disaster_type r = Some ''None''" "risk_level r = Some ''Low''"
      "should_trigger_alert r = Inr False"
      using f that unfolding c by (simp_all add: level_of_def should_trigger_alert_def)
    with r show ?thesis by blast
  qed
  obtain r1 where r1: "compute_risk_score calm_prediction (Some (req_dict calm_request))
        (t_score calm_env) = Inr r1"
    and f1: "disaster_type r1 = Some ''None''" "risk_level r1 = Some ''Low''"
      "should_trigger_alert r1 = Inr False"
    using calm_scored [of calm_prediction "t_score calm_env"]
    by (auto simp add: calm_prediction_def dict_get_def)
  have prem2: "ml_attempt calm_env = Inr calm_prediction \<and>
    compute_risk_score calm_prediction (Some (req_dict calm_request)) (t_score calm_env) = Inr r1 \<and>
    should_trigger_alert r1 = Inr False"
    using r1 f1 by (simp add: calm_env_def)
  have "predict_risk calm_env calm_request (None, fresh_store) = (Inr r1, None, fresh_store)"
    by (rule generate_alert_has_no_gate [where penv = calm_env and p = calm_prediction
          and req = calm_request and r' = r1 and g = None and st = fresh_store,
          THEN conjunct2, THEN conjunct1, THEN mp, OF prem2])
  with f1 show "\<exists>r. predict_risk calm_env calm_request (None, fresh_store) =
      (Inr r, None, fresh_store) \<and> risk_level r = Some ''Low'' \<and> disaster_type r = Some ''None''"
    by blast
  have t: "should_trigger_alert flood_assessment = Inr True"
    by (simp add: should_trigger_alert_def flood_assessment_def)
  have region: "get_region_info (Inr [region_R001]) ''R001'' = region_R001"
    by (simp add: get_region_info_def region_R001_def)
  have service: "fst (get_alert_service None) = new_AlertService 60"
    by (simp add: get_alert_service_def)
  have fenv: "alert_env flood_env = io_at noon_2026" "regions flood_env = Inr [region_R001]"
    "alert_env fallback_env = io_at noon_2026" "regions fallback_env = Inr [region_R001]"
    "req_region_id flood_request = ''R001''"
    by (simp_all add: flood_env_def fallback_env_def flood_request_def)
  have prem3: "ml_attempt flood_env = Inr flood_prediction \<and>
    compute_risk_score flood_prediction (Some (req_dict flood_request)) (t_score flood_env) =
      Inr flood_assessment \<and>
    should_trigger_alert flood_assessment = Inr True"
    using t flood_env_assessment by (simp add: flood_env_def)
  from generate_alert_has_no_gate [where penv = flood_env and p = flood_prediction
      and req = flood_request and r' = flood_assessment and g = None and st = fresh_store,
      THEN conjunct2, THEN conjunct2, THEN conjunct1, THEN mp, OF prem3]
  show "snd (predict_risk flood_env flood_request (None, fresh_store)) =
     (Some (fst (snd (generate_alert (io_at noon_2026) (new_AlertService 60) flood_assessment
                        region_R001 fresh_store))),
      snd (snd (generate_alert (io_at noon_2026) (new_AlertService 60) flood_assessment
                  region_R001 fresh_store)))"
    by (simp add: region service fenv)
  have fb: "fresh_store\<lparr>console := console fresh_store @ [Model_not_available no_model]\<rparr> =
      fallback_store"
    by (simp add: fallback_store_def fresh_store_def)
  have prem4: "ml_attempt fallback_env = Inl no_model \<and>
    rule_based_prediction (req_dict null_wind_request) = Inl TypeError"
    by (simp add: fallback_env_def null_wind_fallback_raises)
  from generate_alert_has_no_gate [where penv = fallback_env and req = null_wind_request
      and g = None and st = fresh_store and e = no_model and e' = TypeError,
      THEN conjunct2, THEN conjunct2, THEN conjunct2, THEN conjunct1, THEN mp, OF prem4]
  show "predict_risk fallback_env null_wind_request (None, fresh_store) =
     (Inl TypeError, None, fallback_store)"
    by (simp add: fb)
  let ?p0 = "\<lparr>p_disaster_type = Some ''None'', p_risk_probability = Some 0,
          p_risk_score = Some 0, p_risk_level = Some ''Low'',
          p_recommended_action = Some ''Monitor'',
          p_class_probabilities = Some [(''None'', 0)],
          p_model_version = Some ''rule_based_v1''\<rparr>"
  obtain r2 where r2: "compute_risk_score ?p0 (Some (req_dict calm_request))
        (t_score fallback_env) = Inr r2"
    and f2: "disaster_type r2 = Some ''None''" "risk_level r2 = Some ''Low''"
      "should_trigger_alert r2 = Inr False"
    using calm_scored [of ?p0 "t_score fallback_env"]
    by (auto simp add: dict_get_def)
  have prem5: "ml_attempt fallback_env = Inl no_model \<and>
    rule_based_prediction (req_dict calm_request) = Inr ?p0 \<and>
    compute_risk_score ?p0 (Some (req_dict calm_request)) (t_score fallback_env) = Inr r2 \<and>
    should_trigger_alert r2 = Inr False"
    using r2 f2 calm_fallback_prediction by (simp add: fallback_env_def)
  from generate_alert_has_no_gate [where penv = fallback_env and req = calm_request
      and p = ?p0 and r' = r2 and g = None and st = fresh_store and e = no_model,
      THEN conjunct2, THEN conjunct2, THEN conjunct2, THEN conjunct2, THEN conjunct1,
      THEN mp, OF prem5]
  have "predict_risk fallback_env calm_request (None, fresh_store) =
      (Inr r2, None, fallback_store)"
    by (simp add: fb)
  with f2 show "\<exists>r. predict_risk fallback_env calm_request (None, fresh_store) =
          (Inr r, None, fallback_store) \<and>
      risk_level r = Some ''Low'' \<and> disaster_type r = Some ''None''"
    by blast
  have fp: "rule_based_prediction (req_dict flood_request) = Inr flood_prediction"
    unfolding flood_prediction_def
    by (rule rule_based_prediction_flood) (simp_all add: flood_request_def)
  have prem6: "ml_attempt fallback_env = Inl no_model \<and>
    rule_based_prediction (req_dict flood_request) = Inr flood_prediction \<and>
    compute_risk_score flood_prediction (Some (req_dict flood_request)) (t_score fallback_env) =
      Inr flood_assessment \<and>
    should_trigger_alert flood_assessment = Inr True"
    using t flood_env_assessment fp by (simp add: fallback_env_def)
  from generate_alert_has_no_gate [where penv = fallback_env and req = flood_request
      and p = flood_prediction and r' = flood_assessment and g = None and st = fresh_store
      and e = no_model,
      THEN conjunct2, THEN conjunct2, THEN conjunct2, THEN conjunct2, THEN conjunct2,
      THEN mp, OF prem6]
  show "snd (predict_risk fallback_env flood_request (None, fresh_store)) =
     (Some (fst (snd (generate_alert (io_at noon_2026) (new_AlertService 60) flood_assessment
                        region_R001 fallback_store))),
      snd (snd (generate_alert (io_at noon_2026) (new_AlertService 60) flood_assessment
                  region_R001 fallback_store)))"
    by (simp add: region service fenv fb)
qed

text \<open>
  C5, evaluated. For an assessment of level High that passes the rate limiter,
  \<open>generate_alert\<close> builds an alert of severity "high", the lower-cased level, while
  \<open>get_alert_severity\<close>, the mapping of the risk engine, gives "critical" for the same
  assessment (and "warning", "info" against "medium", "low" for the other two levels).
\<close>

theorem generate_alert_severity_is_lowercased_level:
  "get_alert_severity flood_assessment = Inr ''critical'' \<and>
   (\<exists>a self' st'.
      generate_alert (io_at noon_2026) (new_AlertService 60) flood_assessment region_R001
        fresh_store = (Inr (Sent a), self', st') \<and>
      a_severity a = ''high'')"
proof
  show "get_alert_severity flood_assessment = Inr ''critical''"
    by (simp add: get_alert_severity_def flood_assessment_def dict_get_def)
  have pass: "fst (can_send (rate_limiter (new_AlertService 60)) (t_can_send (io_at noon_2026))
      (dict_get (g_id region_R001) ''unknown''))"
    by (simp add: io_at_def fresh_service_passes)
  have log: "log_write (io_at noon_2026) = None"
    by (simp add: io_at_def)
  have lvl: "dict_get (risk_level flood_assessment) ''Low'' = ''High''"
    by (simp add: flood_assessment_def dict_get_def)
  from generate_alert_effects [OF pass log, of flood_assessment fresh_store]
  show "\<exists>a self' st'.
      generate_alert (io_at noon_2026) (new_AlertService 60) flood_assessment region_R001
        fresh_store = (Inr (Sent a), self', st') \<and>
      a_severity a = ''high''"
    by (auto simp add: io_at_def build_alert_fields lvl py_lower_levels)
qed

lemma drop_take_nth:
  assumes "b \<le> length xs"
  shows "drop a (take b xs) = map ((!) xs) [a..<b]"
proof (rule nth_equalityI)
  show "length (drop a (take b xs)) = length (map ((!) xs) [a..<b])"
    using assms by simp
  fix i
  assume "i < length (drop a (take b xs))"
  then have "i < b - a" using assms by simp
  then show "drop a (take b xs) ! i = map ((!) xs) [a..<b] ! i"
    using assms by simp
qed

lemma present_map_Some: "present (map Some vs) = vs"
  by (induction vs) (simp_all add: present_def)

lemma window_present:
  assumes "i < length xs"
  shows "present (window w (map Some xs) i) = map ((!) xs) [Suc i - w..<Suc i]"
proof -
  have "Suc i \<le> length xs" using assms by simp
  then have "drop (Suc i - w) (take (Suc i) xs) = map ((!) xs) [Suc i - w..<Suc i]"
    by (rule drop_take_nth)
  then have "window w (map Some xs) i = map Some (map ((!) xs) [Suc i - w..<Suc i])"
    unfolding window_def by (simp only: take_map drop_map)
  then show ?thesis by (simp only: present_map_Some)
qed

lemma window_length:
  assumes "i < length xs"
  shows "length (present (window w (map Some xs) i)) = min w (Suc i)"
proof -
  have "Suc i - (Suc i - w) = min w (Suc i)" by arith
  then show ?thesis
    by (simp only: window_present [OF assms] length_map length_upt)
qed

lemma window_mean:
  assumes "i < length xs"
  shows "mean (present (window w (map Some xs) i)) =
           (\<Sum>k = Suc i - w..<Suc i. xs ! k) / real (min w (Suc i))"
proof -
  have "sum_list (map ((!) xs) [Suc i - w..<Suc i]) = (\<Sum>k = Suc i - w..<Suc i. xs ! k)"
    by (simp only: interv_sum_list_conv_sum_set_nat set_upt)
  then have "sum_list (present (window w (map Some xs) i)) =
      (\<Sum>k = Suc i - w..<Suc i. xs ! k)"
    by (simp only: window_present [OF assms])
  then show ?thesis
    unfolding mean_def by (simp only: window_length [OF assms])
qed

lemma rolling_mean_nth:
  assumes "i < length xs" and "0 < w"
  shows "rolling_mean w 1 (map Some xs) ! i =
           Some ((\<Sum>k = Suc i - w..<Suc i. xs ! k) / real (min w (Suc i)))"
proof -
  have "1 \<le> length (present (window w (map Some xs) i))"
    using assms(2) by (simp add: window_length [OF assms(1)])
  moreover have "rolling_mean w 1 (map Some xs) ! i =
      (let vs = present (window w (map Some xs) i)
       in if 1 \<le> length vs \<and> 1 \<le> length vs then Some (mean vs) else None)"
    using assms(1) by (simp add: rolling_mean_def del: upt_Suc)
  ultimately show ?thesis
    by (simp only: Let_def window_mean [OF assms(1)] simp_thms if_True)
qed

lemma rolling_std_few:
  assumes "i < length x" and "length (present (window w x i)) < 2"
  shows "fillna 0 (rolling_std w m x) ! i = Some 0"
  using assms by (simp add: fillna_def rolling_std_def Let_def del: upt_Suc)

lemma rolling_std_enough:
  assumes "i < length x" and "2 \<le> length (present (window w x i))"
  shows "fillna 0 (rolling_std w 1 x) ! i = Some (sample_std (present (window w x i)))"
  using assms by (simp add: fillna_def rolling_std_def Let_def del: upt_Suc)

lemma series_sub_nth:
  assumes "i < length xs" and "i < length ys" and "xs ! i = Some a" and "ys ! i = Some b"
  shows "series_sub xs ys ! i = Some (a - b)"
  using assms by (simp add: series_sub_def)

lemma rolling_mean_length: "length (rolling_mean w m x) = length x"
  by (simp add: rolling_mean_def)

lemma compute_rolling_features_fields:
  "roll3 (compute_rolling_features x) = rolling_mean 3 1 x"
  "roll7 (compute_rolling_features x) = rolling_mean 7 1 x"
  "roll_std3 (compute_rolling_features x) = fillna 0 (rolling_std 3 1 x)"
  "trend (compute_rolling_features x) = series_sub x (rolling_mean 7 1 x)"
  by (simp_all add: compute_rolling_features_def)

text \<open>
  C9. For a region's column \<open>xs\<close> with every value present, at each position \<open>i\<close>:
  the 3-record rolling mean is the sum of the records from position \<open>i - 2\<close> (or 0 if
  that is negative) to \<open>i\<close>, divided by their number \<open>min 3 (i + 1)\<close>; the 7-record rolling
  mean likewise with \<open>i - 6\<close> and \<open>min 7 (i + 1)\<close>; the 3-record rolling standard deviation
  is 0 at position 0, where the window holds one sample, and is the sample standard
  deviation of the window from position 1 on; the trend is the current value minus the
  7-record rolling mean. For any column, also one with missing values, the rolling
  standard deviation is 0 wherever its window holds fewer than two present values. Over
  a history of a single record both rolling means are that record's value, and the
  rolling standard deviation and the trend are 0.
\<close>

theorem rolling_min_periods_one:
  "(i < length xs \<longrightarrow>
      roll3 (compute_rolling_features (map Some xs)) ! i =
        Some ((\<Sum>k = Suc i - 3..<Suc i. xs ! k) / real (min 3 (Suc i))) \<and>
      roll7 (compute_rolling_features (map Some xs)) ! i =
        Some ((\<Sum>k = Suc i - 7..<Suc i. xs ! k) / real (min 7 (Suc i))) \<and>
      roll_std3 (compute_rolling_features (map Some xs)) ! i =
        Some (if i = 0 then 0 else sample_std (map ((!) xs) [Suc i - 3..<Suc i])) \<and>
      trend (compute_rolling_features (map Some xs)) ! i =
        Some (xs ! i - (\<Sum>k = Suc i - 7..<Suc i. xs ! k) / real (min 7 (Suc i)))) \<and>
   (j < length x \<and> length (present (window 3 x j)) < 2 \<longrightarrow>
      roll_std3 (compute_rolling_features x) ! j = Some 0) \<and>
   compute_rolling_features [Some v] =
     \<lparr>roll3 = [Some v], roll7 = [Some v], roll_std3 = [Some 0], trend = [Some 0]\<rparr>"
proof (intro conjI impI)
  assume i: "i < length xs"
  show "roll3 (compute_rolling_features (map Some xs)) ! i =
        Some ((\<Sum>k = Suc i - 3..<Suc i. xs ! k) / real (min 3 (Suc i)))"
    unfolding compute_rolling_features_fields by (rule rolling_mean_nth [OF i]) simp
  have r7: "rolling_mean 7 1 (map Some xs) ! i =
        Some ((\<Sum>k = Suc i - 7..<Suc i. xs ! k) / real (min 7 (Suc i)))"
    by (rule rolling_mean_nth [OF i]) simp
  then show "roll7 (compute_rolling_features (map Some xs)) ! i =
        Some ((\<Sum>k = Suc i - 7..<Suc i. xs ! k) / real (min 7 (Suc i)))"
    unfolding compute_rolling_features_fields .
  have i': "i < length (map Some xs)" using i by simp
  show "roll_std3 (compute_rolling_features (map Some xs)) ! i =
        Some (if i = 0 then 0 else sample_std (map ((!) xs) [Suc i - 3..<Suc i]))"
  proof (cases "i = 0")
    case True
    have "length (present (window 3 (map Some xs) i)) = min 3 (Suc i)"
      by (rule window_length [OF i])
    with True have "length (present (window 3 (map Some xs) i)) < 2"
      by simp
    from rolling_std_few [OF i' this] True show ?thesis
      unfolding compute_rolling_features_fields by simp
  next
    case False
    have "length (present (window 3 (map Some xs) i)) = min 3 (Suc i)"
      by (rule window_length [OF i])
    with False have "2 \<le> length (present (window 3 (map Some xs) i))"
      by simp
    from rolling_std_enough [OF i' this] False show ?thesis
      unfolding compute_rolling_features_fields by (simp only: window_present [OF i] if_False)
  qed
  have "series_sub (map Some xs) (rolling_mean 7 1 (map Some xs)) ! i =
      Some (xs ! i - (\<Sum>k = Suc i - 7..<Suc i. xs ! k) / real (min 7 (Suc i)))"
    using i by (intro series_sub_nth r7) (simp_all add: rolling_mean_length)
  then show "trend (compute_rolling_features (map Some xs)) ! i =
        Some (xs ! i - (\<Sum>k = Suc i - 7..<Suc i. xs ! k) / real (min 7 (Suc i)))"
    unfolding compute_rolling_features_fields .
next
  assume "j < length x \<and> length (present (window 3 x j)) < 2"
  then show "roll_std3 (compute_rolling_features x) ! j = Some 0"
    unfolding compute_rolling_features_fields by (simp add: rolling_std_few)
next
  show "compute_rolling_features [Some v] =
     \<lparr>roll3 = [Some v], roll7 = [Some v], roll_std3 = [Some 0], trend = [Some 0]\<rparr>"
    by (simp add: compute_rolling_features_def rolling_mean_def rolling_std_def fillna_def
        series_sub_def window_def present_def mean_def Let_def)
qed

theorem rolling_min_periods_one_witness:
  "roll3 (compute_rolling_features (map Some sample_series)) ! 3 = Some (110 / 3) \<and>
   roll7 (compute_rolling_features (map Some sample_series)) ! 3 = Some 30 \<and>
   trend (compute_rolling_features (map Some sample_series)) ! 3 = Some 0 \<and>
   roll3 (compute_rolling_features (map Some sample_series)) ! 1 = Some 15 \<and>
   roll_std3 (compute_rolling_features (map Some sample_series)) ! 0 = Some 0 \<and>
   roll_std3 (compute_rolling_features [Some 10, None, None, Some 30]) ! 2 = Some 0"
proof -
  have s: "sum ((!) sample_series) {Suc 0..<4} = 110" "sum ((!) sample_series) {0..<4} = 120"
    "sample_series ! 0 + sample_series ! Suc 0 = 30" "sample_series ! 3 = 30"
    by (simp_all add: sample_series_def eval_nat_numeral)
  have l: "length sample_series = 4" by (simp add: sample_series_def)
  note w3 = rolling_min_periods_one [where xs = sample_series and i = 3
      and x = "[Some 10, None, None, Some 30]" and j = 2]
  note w1 = rolling_min_periods_one [where xs = sample_series and i = 1]
  note w0 = rolling_min_periods_one [where xs = sample_series and i = 0]
  have p: "length (present (window 3 [Some 10, None, None, Some 30] 2)) < 2"
    by (simp add: window_def present_def)
  show ?thesis
    using w3 w1 w0 p by (simp add: l s)
qed

end
